theory Spec2Isabelle
  imports Complex_Main
begin

section \<open>Data model\<close>

text \<open>
  The subscription controller reads and writes two views of one subscription: the JSON
  object stored on the user row (\<open>user.subscription\<close>) and the subscription object the
  billing provider returns from \<open>stripe.subscriptions.retrieve\<close>. Timestamps of the local
  record are JavaScript dates, modelled as milliseconds since the epoch; timestamps of the
  provider are seconds since the epoch. A JSON key that is absent, \<open>null\<close> or
  \<open>undefined\<close> is \<open>None\<close>. Numbers are exact integers and rationals: the amounts and
  timestamps the code handles are far inside the range in which JavaScript's doubles are
  exact.

  The subscription column is read as a parsed object or \<open>null\<close>, so that
  \<open>parseUserSubscription\<close> changes nothing. Assigning a new object to
  \<open>user.subscription\<close> goes through the attribute's setter, and the following \<open>save()\<close>
  writes it; editing the fields of the object in place does not, and the following
  \<open>save()\<close> writes nothing. A call to the user table or the invoice table can reject: in
  the webhook handler, whose \<open>switch\<close> has no \<open>try\<close>, that is part of the model; in the
  endpoints that wrap their body in \<open>try\<close>, a rejected table call ends in the same
  \<open>catch\<close> reply as a rejected provider call and is not modelled apart from it.
\<close>

record local_subscription =
  sub_id :: "string option"
  status :: "string option"
  currentPeriodEnd :: "int option"
  paymentDate :: "int option"
  interval :: "string option"
  cancelAtPeriodEnd :: "bool option"

record stripe_subscription =
  stripe_id :: string
  stripe_status :: string
  customer :: string
  current_period_start :: "int option"
  current_period_end :: "int option"
  current_period_end_is_null :: bool
  cancel_at_period_end :: bool
  plan_interval :: "string option"
  price_id :: "string option"

text \<open>
  When \<open>current_period_end\<close> is \<open>None\<close>, \<open>current_period_end_is_null\<close> tells the two
  ways apart: the key holds \<open>null\<close> (\<open>True\<close>) or the key is absent and reads as
  \<open>undefined\<close> (\<open>False\<close>). Both are falsy; they differ where the code multiplies the
  value without testing it, \<open>null * 1000\<close> being 0 and \<open>undefined * 1000\<close> being \<open>NaN\<close>.
\<close>

record user =
  user_id :: nat
  user_name :: "string option"
  user_email :: string
  stripeCustomerId :: "string option"
  subscription :: "local_subscription option"

text \<open>JavaScript truthiness of an optional string and of an optional number.\<close>

definition truthy_str :: "string option \<Rightarrow> bool" where
  "truthy_str v = (case v of None \<Rightarrow> False | Some s \<Rightarrow> s \<noteq> [])"

definition truthy_num :: "int option \<Rightarrow> bool" where
  "truthy_num v = (case v of None \<Rightarrow> False | Some n \<Rightarrow> n \<noteq> 0)"

text \<open>\<open>a || b\<close> on optional strings: the first operand when it is truthy, else the second.\<close>

definition or_str :: "string option \<Rightarrow> string option \<Rightarrow> string option" where
  "or_str a b = (if truthy_str a then a else b)"

text \<open>\<open>v || 'month'\<close>.\<close>

definition or_month :: "string option \<Rightarrow> string" where
  "or_month v = (case v of None \<Rightarrow> ''month'' | Some s \<Rightarrow> if s = [] then ''month'' else s)"

text \<open>\<open>User.findByPk\<close> and \<open>User.findOne({ where: { stripeCustomerId } })\<close> over the user table.\<close>

definition findByPk :: "user list \<Rightarrow> nat \<Rightarrow> user option" where
  "findByPk us uid = find (\<lambda>u. user_id u = uid) us"

definition findOneByCustomer :: "user list \<Rightarrow> string \<Rightarrow> user option" where
  "findOneByCustomer us c = find (\<lambda>u. stripeCustomerId u = Some c) us"

text \<open>\<open>user.save()\<close>: the row with the user's primary key is replaced.\<close>

definition save :: "user \<Rightarrow> user list \<Rightarrow> user list" where
  "save u us = map (\<lambda>v. if user_id v = user_id u then u else v) us"

text \<open>
  Provider objects carried by webhook events. A payment intent and a charge have the same
  shape as far as the handler reads them: \<open>id\<close>, \<open>metadata.subscription_id\<close>,
  \<open>amount\<close> (in the currency's minor unit), \<open>currency\<close> and \<open>invoice\<close>.
\<close>

record stripe_payment =
  pay_id :: string
  metadata_subscription_id :: "string option"
  pay_amount :: int
  pay_currency :: string
  pay_invoice :: "string option"

record stripe_invoice =
  inv_id :: string
  inv_customer :: string
  inv_subscription :: "string option"
  period_end :: int
  amount_paid :: int
  inv_currency :: string

text \<open>
  The typed event envelope that \<open>stripe.webhooks.constructEvent\<close> returns: one constructor
  for each \<open>case\<close> label of the handler's \<open>switch (event.type)\<close>, and \<open>Unhandled\<close>
  with the type tag for every other event.
\<close>

datatype event =
    PaymentIntentSucceeded stripe_payment
  | ChargeSucceeded stripe_payment
  | PaymentIntentPaymentFailed stripe_payment
  | SubscriptionCreated stripe_subscription
  | SubscriptionUpdated stripe_subscription
  | SubscriptionDeleted stripe_subscription
  | InvoicePaymentSucceeded stripe_invoice
  | InvoicePaymentFailed stripe_invoice
  | Unhandled string

text \<open>
  The provider client. \<open>constructEvent body sig secret\<close> is \<open>None\<close> when the library
  throws (the signature does not verify). \<open>subscriptions\<close> is the provider's table;
  \<open>retrieve\<close> of an id the provider does not know throws, which is \<open>None\<close>.
  \<open>update_throws\<close> says whether \<open>stripe.subscriptions.update\<close> fails. The global
  \<open>stripe\<close> is \<open>None\<close> when no secret key is configured.
\<close>

record stripe_client =
  constructEvent :: "string \<Rightarrow> string option \<Rightarrow> string option \<Rightarrow> event option"
  subscriptions :: "string \<Rightarrow> stripe_subscription option"
  update_throws :: bool

definition retrieve :: "stripe_client \<Rightarrow> string \<Rightarrow> stripe_subscription option" where
  "retrieve client i = subscriptions client i"

section \<open>Status reconciler: getSubscriptionStatus\<close>

record status_view =
  v_id :: string
  v_status :: string
  v_currentPeriodStart :: "int option"
  v_currentPeriodEnd :: "int option"
  v_cancelAtPeriodEnd :: bool
  v_plan :: "string option"
  v_interval :: string
  v_isActive :: bool
  v_paymentDate :: "int option"
  v_willCancelAtPeriodEnd :: bool

datatype status_response =
    Status_NotConfigured
  | Status_NotAuthenticated
  | Status_None
  | Status_Ok status_view
  | Status_Failed

text \<open>
  \<open>Status_NotConfigured\<close> is the 500 reply "Stripe not configured", \<open>Status_NotAuthenticated\<close>
  the 401 reply, \<open>Status_None\<close> the 200 reply \<open>{ subscription: null }\<close>, \<open>Status_Ok\<close>
  the 200 reply carrying the merged view and \<open>Status_Failed\<close> the 500 reply of the
  \<open>catch\<close> block.

  In \<open>statusView\<close> the clock \<open>now\<close> is the \<open>new Date()\<close> of the expiry check. The expiry
  check reads \<open>subscription.current_period_end\<close>, the provider's value, and is skipped when
  that value is falsy. A stored \<open>currentPeriodEnd\<close> is a date (or its ISO string), which is
  truthy whatever instant it denotes.
\<close>

definition resolveStatus :: "string option \<Rightarrow> string \<Rightarrow> string" where
  "resolveStatus databaseStatus stripeStatus =
     (if databaseStatus = Some ''active'' then ''active'' else stripeStatus)"

definition statusView :: "int \<Rightarrow> local_subscription \<Rightarrow> stripe_subscription \<Rightarrow> status_view" where
  "statusView now ls sub =
    (let databaseStatus = status ls;
         stripeStatus = stripe_status sub;
         stripeCancelAtPeriodEnd = cancel_at_period_end sub;
         finalStatus0 = resolveStatus databaseStatus stripeStatus;
         isActive0 = (finalStatus0 = ''active'' \<or> finalStatus0 = ''trialing'');
         expired = (isActive0 \<and> truthy_num (current_period_end sub) \<and>
                    (case current_period_end sub of None \<Rightarrow> False | Some e \<Rightarrow> now > e * 1000));
         isActive = (if expired then False else isActive0);
         finalStatus = (if expired then ''expired'' else finalStatus0);
         interval' = or_month (or_str (interval ls) (plan_interval sub));
         currentPeriodEnd' =
           (case currentPeriodEnd ls of
              Some ms \<Rightarrow> Some (ms div 1000)
            | None \<Rightarrow> current_period_end sub)
     in \<lparr> v_id = stripe_id sub,
          v_status = finalStatus,
          v_currentPeriodStart = current_period_start sub,
          v_currentPeriodEnd = currentPeriodEnd',
          v_cancelAtPeriodEnd = stripeCancelAtPeriodEnd,
          v_plan = price_id sub,
          v_interval = interval',
          v_isActive = isActive,
          v_paymentDate = paymentDate ls,
          v_willCancelAtPeriodEnd = stripeCancelAtPeriodEnd \<rparr>)"

definition getSubscriptionStatus ::
  "stripe_client option \<Rightarrow> user list \<Rightarrow> int \<Rightarrow> nat option \<Rightarrow> status_response" where
  "getSubscriptionStatus stripe users now req_user =
    (case stripe of
       None \<Rightarrow> Status_NotConfigured
     | Some client \<Rightarrow>
        (case req_user of
           None \<Rightarrow> Status_NotAuthenticated
         | Some userId \<Rightarrow>
            if userId = 0 then Status_NotAuthenticated
            else
              (case findByPk users userId of
                 None \<Rightarrow> Status_None
               | Some u \<Rightarrow>
                  (case subscription u of
                     None \<Rightarrow> Status_None
                   | Some ls \<Rightarrow>
                      (case sub_id ls of
                         None \<Rightarrow> Status_None
                       | Some i \<Rightarrow>
                          if i = [] then Status_None
                          else
                            (case retrieve client i of
                               None \<Rightarrow> Status_Failed
                             | Some sub \<Rightarrow> Status_Ok (statusView now ls sub)))))))"

section \<open>Side-effect trigger: generateInvoice and handleSuccessfulPayment\<close>

text \<open>
  The decimal print of \<open>Date.now()\<close> inside the template string of the invoice id.
\<close>

definition digit_char :: "nat \<Rightarrow> char" where
  "digit_char d = ''0123456789'' ! d"

function show_nat :: "nat \<Rightarrow> string" where
  "show_nat n =
     (if n < 10 then [digit_char n]
      else show_nat (n div 10) @ [digit_char (n mod 10)])"
  by pat_completeness auto
termination
  by (relation "measure id") auto

declare show_nat.simps [simp del]

text \<open>
  A row of the \<open>invoices\<close> table (the columns \<open>generateInvoice\<close> writes), and the
  \<open>subscriptionData\<close> object the webhook handler passes. Amounts are in the currency's
  major unit: the handler divides the provider's amount by 100.
\<close>

record invoice =
  invoiceId :: string
  userId :: nat
  subscriptionId :: string
  stripeInvoiceId :: "string option"
  amount :: rat
  currency :: string
  invoice_status :: string
  customerName :: "string option"
  customerEmail :: string
  emailSent :: bool

record subscription_data =
  sd_id :: "string option"
  sd_subscriptionId :: "string option"
  sd_amount :: rat
  sd_currency :: string
  sd_stripeInvoiceId :: "string option"

text \<open>
  What one request gets from the outside: \<open>now\<close> is the handler's clock
  (\<open>new Date()\<close>, \<open>Date.now()\<close>), \<open>invoice_now\<close> the later \<open>Date.now()\<close> inside
  \<open>generateInvoice\<close>, \<open>invoice_rnd\<close> the value of
  \<open>Math.random().toString(36).substr(2, 9).toUpperCase()\<close>. The three flags say whether
  the database rejects the request's \<open>User.findOne\<close>, its \<open>user.save()\<close> and its
  \<open>Invoice.create\<close>.
\<close>

record outside =
  now :: int
  invoice_now :: nat
  invoice_rnd :: string
  findOne_throws :: bool
  save_throws :: bool
  create_throws :: bool

definition newInvoiceId :: "outside \<Rightarrow> string" where
  "newInvoiceId clk = ''INV-'' @ show_nat (invoice_now clk) @ ''-'' @ invoice_rnd clk"

text \<open>
  \<open>generateInvoice\<close> returns the created row, or \<open>None\<close> when \<open>Invoice.create\<close>
  throws: \<open>subscriptionId\<close> and \<open>amount\<close> are \<open>allowNull: false\<close>,
  \<open>invoiceId\<close> is \<open>unique\<close>, and the database can reject the insert.
  \<open>subscriptionData.amount || subscriptionData.price\<close> is \<open>undefined\<close> when the amount is
  0, since no caller sets \<open>price\<close>.
\<close>

definition generateInvoice ::
  "outside \<Rightarrow> subscription_data \<Rightarrow> user \<Rightarrow> invoice list \<Rightarrow> invoice option" where
  "generateInvoice clk sd u invs =
    (case or_str (sd_id sd) (sd_subscriptionId sd) of
       None \<Rightarrow> None
     | Some sid \<Rightarrow>
        if sd_amount sd = 0 then None
        else if newInvoiceId clk \<in> set (map invoiceId invs) then None
        else if create_throws clk then None
        else Some \<lparr> invoiceId = newInvoiceId clk,
                    userId = user_id u,
                    subscriptionId = sid,
                    stripeInvoiceId = sd_stripeInvoiceId sd,
                    amount = sd_amount sd,
                    currency = (if sd_currency sd = [] then ''usd'' else sd_currency sd),
                    invoice_status = ''paid'',
                    customerName = user_name u,
                    customerEmail = user_email u,
                    emailSent = False \<rparr>)"

text \<open>
  \<open>handleSuccessfulPayment\<close> swallows the error of \<open>generateInvoice\<close>; the email is sent
  later and is not part of the model. The webhook handler does not await the promise: the
  model gives the invoice table once the promise has settled.
\<close>

definition handleSuccessfulPayment ::
  "outside \<Rightarrow> subscription_data \<Rightarrow> user \<Rightarrow> invoice list \<Rightarrow> invoice list" where
  "handleSuccessfulPayment clk sd u invs =
    (case generateInvoice clk sd u invs of None \<Rightarrow> invs | Some row \<Rightarrow> invs @ [row])"

section \<open>Webhook ingestor and event dispatcher: handleWebhook\<close>

record store =
  users :: "user list"
  invoices :: "invoice list"

record webhook_request =
  body :: string
  signature :: "string option"

text \<open>
  \<open>Webhook_NotConfigured\<close> is the 500 reply, \<open>Webhook_BadSignature\<close> the 400 reply
  "Webhook verification failed", \<open>Webhook_Received\<close> the 200 reply \<open>{ received: true }\<close>.
  \<open>Webhook_Threw\<close> is the handler's promise rejecting before any reply is written: the
  \<open>await\<close>s of a case (\<open>stripe.subscriptions.retrieve\<close>, \<open>User.findOne\<close>,
  \<open>user.save()\<close>) are not inside a \<open>try\<close>.
\<close>

datatype webhook_reply =
    Webhook_NotConfigured
  | Webhook_BadSignature
  | Webhook_Received
  | Webhook_Threw

fun http_status :: "webhook_reply \<Rightarrow> nat option" where
  "http_status Webhook_NotConfigured = Some 500"
| "http_status Webhook_BadSignature = Some 400"
| "http_status Webhook_Received = Some 200"
| "http_status Webhook_Threw = None"

definition validityDays :: "string \<Rightarrow> int" where
  "validityDays i = (if i = ''year'' then 365 else 30)"

text \<open>
  The period end the handlers store: the provider's value when it is truthy, else the
  interval-based fallback from the handler's clock.
\<close>

definition periodEndOf :: "int \<Rightarrow> stripe_subscription \<Rightarrow> int" where
  "periodEndOf t sub =
    (let fallback = t + validityDays (or_month (plan_interval sub)) * 24 * 60 * 60 * 1000
     in case current_period_end sub of
          None \<Rightarrow> fallback
        | Some e \<Rightarrow> if e = 0 then fallback else e * 1000)"

text \<open>\<open>{ ...user.subscription }\<close>: spreading \<open>null\<close> gives the empty object.\<close>

definition spread :: "local_subscription option \<Rightarrow> local_subscription" where
  "spread s =
    (case s of
       Some ls \<Rightarrow> ls
     | None \<Rightarrow> \<lparr> sub_id = None, status = None, currentPeriodEnd = None, paymentDate = None,
                  interval = None, cancelAtPeriodEnd = None \<rparr>)"

text \<open>
  The write of the \<open>payment_intent.succeeded\<close> and \<open>charge.succeeded\<close> cases, followed by
  the invoice side effect. A rejected \<open>user.save()\<close> rejects the handler: the row is not
  written and the side effect is not started.
\<close>

definition paymentData :: "string \<Rightarrow> stripe_payment \<Rightarrow> subscription_data" where
  "paymentData subId pay =
    \<lparr> sd_id = Some subId,
      sd_subscriptionId = Some subId,
      sd_amount = of_int (pay_amount pay) / 100,
      sd_currency = pay_currency pay,
      sd_stripeInvoiceId = or_str (pay_invoice pay) (Some (pay_id pay)) \<rparr>"

definition markPaid ::
  "outside \<Rightarrow> string \<Rightarrow> string \<Rightarrow> stripe_subscription \<Rightarrow> stripe_payment \<Rightarrow> user \<Rightarrow> store
     \<Rightarrow> store option" where
  "markPaid clk newStatus subId sub pay u st =
    (let u' = u\<lparr> subscription := Some ((spread (subscription u))
                 \<lparr> status := Some newStatus,
                   currentPeriodEnd := Some (periodEndOf (now clk) sub),
                   paymentDate := Some (now clk),
                   interval := Some (or_month (plan_interval sub)) \<rparr>) \<rparr>
     in if save_throws clk then None
        else Some \<lparr> users = save u' (users st),
                    invoices = handleSuccessfulPayment clk (paymentData subId pay) u'
                                 (invoices st) \<rparr>)"

definition onPaymentIntentSucceeded ::
  "stripe_client \<Rightarrow> outside \<Rightarrow> stripe_payment \<Rightarrow> store \<Rightarrow> store option" where
  "onPaymentIntentSucceeded client clk paymentIntent st =
    (if truthy_str (metadata_subscription_id paymentIntent) then
       (case metadata_subscription_id paymentIntent of
          None \<Rightarrow> Some st
        | Some subId \<Rightarrow>
           (case retrieve client subId of
              None \<Rightarrow> None
            | Some sub \<Rightarrow>
               if stripe_status sub = ''active'' \<or> stripe_status sub = ''trialing'' then
                 (if findOne_throws clk then None
                  else
                    (case findOneByCustomer (users st) (customer sub) of
                       None \<Rightarrow> Some st
                     | Some u \<Rightarrow>
                        markPaid clk (stripe_status sub) subId sub paymentIntent u st))
               else Some st))
     else Some st)"

definition onChargeSucceeded ::
  "stripe_client \<Rightarrow> outside \<Rightarrow> stripe_payment \<Rightarrow> store \<Rightarrow> store option" where
  "onChargeSucceeded client clk charge st =
    (if truthy_str (metadata_subscription_id charge) then
       (case metadata_subscription_id charge of
          None \<Rightarrow> Some st
        | Some subId \<Rightarrow>
           (case retrieve client subId of
              None \<Rightarrow> None
            | Some sub \<Rightarrow>
               if findOne_throws clk then None
               else
                 (case findOneByCustomer (users st) (customer sub) of
                    None \<Rightarrow> Some st
                  | Some u \<Rightarrow>
                     if stripe_status sub = ''active'' \<or> stripe_status sub = ''trialing'' then
                       markPaid clk (stripe_status sub) subId sub charge u st
                     else if stripe_status sub = ''incomplete'' then
                       markPaid clk ''active'' subId sub charge u st
                     else Some st)))
     else Some st)"

text \<open>The subscription lifecycle cases: created, updated, deleted.\<close>

definition onSubscriptionCreated :: "outside \<Rightarrow> stripe_subscription \<Rightarrow> store \<Rightarrow> store option" where
  "onSubscriptionCreated clk subscriptionCreated st =
    (if findOne_throws clk then None
     else
       (case findOneByCustomer (users st) (customer subscriptionCreated) of
          None \<Rightarrow> Some st
        | Some u \<Rightarrow>
           if save_throws clk then None
           else Some (st\<lparr> users := save
                  (u\<lparr> subscription := Some ((spread (subscription u))
                       \<lparr> status := Some (stripe_status subscriptionCreated),
                         currentPeriodEnd := Some (periodEndOf (now clk) subscriptionCreated),
                         paymentDate := Some (now clk),
                         interval := Some (or_month (plan_interval subscriptionCreated)) \<rparr>) \<rparr>)
                  (users st) \<rparr>)))"

definition onSubscriptionUpdated :: "outside \<Rightarrow> stripe_subscription \<Rightarrow> store \<Rightarrow> store option" where
  "onSubscriptionUpdated clk subscriptionUpdated st =
    (if findOne_throws clk then None
     else
       (case findOneByCustomer (users st) (customer subscriptionUpdated) of
          None \<Rightarrow> Some st
        | Some u \<Rightarrow>
           if save_throws clk then None
           else Some (st\<lparr> users := save
                  (u\<lparr> subscription := Some ((spread (subscription u))
                       \<lparr> status := Some (stripe_status subscriptionUpdated),
                         currentPeriodEnd := Some (periodEndOf (now clk) subscriptionUpdated),
                         paymentDate := Some (now clk),
                         interval := Some (or_month (plan_interval subscriptionUpdated)),
                         cancelAtPeriodEnd :=
                           Some (cancel_at_period_end subscriptionUpdated) \<rparr>) \<rparr>)
                  (users st) \<rparr>)))"

definition onSubscriptionDeleted :: "outside \<Rightarrow> stripe_subscription \<Rightarrow> store \<Rightarrow> store option" where
  "onSubscriptionDeleted clk subscriptionDeleted st =
    (if findOne_throws clk then None
     else
       (case findOneByCustomer (users st) (customer subscriptionDeleted) of
          None \<Rightarrow> Some st
        | Some u \<Rightarrow>
           if save_throws clk then None
           else Some (st\<lparr> users := save
                  (u\<lparr> subscription := Some ((spread (subscription u))
                       \<lparr> status := Some ''canceled'', currentPeriodEnd := None \<rparr>) \<rparr>)
                  (users st) \<rparr>)))"

text \<open>The invoice cases: payment succeeded (with the invoice side effect) and failed.\<close>

definition invoiceData :: "stripe_invoice \<Rightarrow> subscription_data" where
  "invoiceData invoicePaid =
    \<lparr> sd_id = inv_subscription invoicePaid,
      sd_subscriptionId = inv_subscription invoicePaid,
      sd_amount = of_int (amount_paid invoicePaid) / 100,
      sd_currency = inv_currency invoicePaid,
      sd_stripeInvoiceId = Some (inv_id invoicePaid) \<rparr>"

definition onInvoicePaymentSucceeded :: "outside \<Rightarrow> stripe_invoice \<Rightarrow> store \<Rightarrow> store option" where
  "onInvoicePaymentSucceeded clk invoicePaid st =
    (if findOne_throws clk then None
     else
       (case findOneByCustomer (users st) (inv_customer invoicePaid) of
          None \<Rightarrow> Some st
        | Some userPaid \<Rightarrow>
           (let u' = userPaid\<lparr> subscription := Some ((spread (subscription userPaid))
                       \<lparr> status := Some ''active'',
                         currentPeriodEnd := Some (period_end invoicePaid * 1000),
                         paymentDate := Some (now clk) \<rparr>) \<rparr>
            in if save_throws clk then None
               else Some \<lparr> users = save u' (users st),
                           invoices = handleSuccessfulPayment clk (invoiceData invoicePaid) u'
                                        (invoices st) \<rparr>)))"

definition onInvoicePaymentFailed :: "outside \<Rightarrow> stripe_invoice \<Rightarrow> store \<Rightarrow> store option" where
  "onInvoicePaymentFailed clk invoiceFailed st =
    (if findOne_throws clk then None
     else
       (case findOneByCustomer (users st) (inv_customer invoiceFailed) of
          None \<Rightarrow> Some st
        | Some u \<Rightarrow>
           if save_throws clk then None
           else Some (st\<lparr> users := save
                  (u\<lparr> subscription := Some ((spread (subscription u))
                       \<lparr> status := Some ''past_due'' \<rparr>) \<rparr>)
                  (users st) \<rparr>)))"

text \<open>
  The \<open>switch\<close>: \<open>None\<close> is the case rejecting, at the provider lookup or at a call to
  the user table; the store is then as it was, since every case writes last.
\<close>

fun dispatch :: "stripe_client \<Rightarrow> outside \<Rightarrow> event \<Rightarrow> store \<Rightarrow> store option" where
  "dispatch client clk (PaymentIntentSucceeded paymentIntent) st =
     onPaymentIntentSucceeded client clk paymentIntent st"
| "dispatch client clk (ChargeSucceeded charge) st = onChargeSucceeded client clk charge st"
| "dispatch client clk (PaymentIntentPaymentFailed pf) st = Some st"
| "dispatch client clk (SubscriptionCreated sc) st = onSubscriptionCreated clk sc st"
| "dispatch client clk (SubscriptionUpdated su) st = onSubscriptionUpdated clk su st"
| "dispatch client clk (SubscriptionDeleted sd) st = onSubscriptionDeleted clk sd st"
| "dispatch client clk (InvoicePaymentSucceeded ip) st = onInvoicePaymentSucceeded clk ip st"
| "dispatch client clk (InvoicePaymentFailed ifl) st = onInvoicePaymentFailed clk ifl st"
| "dispatch client clk (Unhandled ty) st = Some st"

definition handleWebhook ::
  "stripe_client option \<Rightarrow> string option \<Rightarrow> outside \<Rightarrow> webhook_request \<Rightarrow> store
     \<Rightarrow> webhook_reply \<times> store" where
  "handleWebhook stripe endpointSecret clk req st =
    (case stripe of
       None \<Rightarrow> (Webhook_NotConfigured, st)
     | Some client \<Rightarrow>
        (case constructEvent client (body req) (signature req) endpointSecret of
           None \<Rightarrow> (Webhook_BadSignature, st)
         | Some ev \<Rightarrow>
            (case dispatch client clk ev st of
               None \<Rightarrow> (Webhook_Threw, st)
             | Some st' \<Rightarrow> (Webhook_Received, st'))))"

section \<open>Countdown view: getSubscriptionDetails\<close>

text \<open>
  \<open>Math.max(0, Math.ceil(timeDiff / (1000 * 60 * 60 * 24)))\<close> with \<open>timeDiff\<close> in
  milliseconds, and the four tiers of \<open>validityStatus\<close>. The quotient is the exact
  rational.
\<close>

definition remainingDays :: "int \<Rightarrow> int \<Rightarrow> int" where
  "remainingDays t periodEnd =
    (let expiryDate = periodEnd * 1000;
         timeDiff = expiryDate - t
     in max 0 \<lceil>(of_int timeDiff :: rat) / (1000 * 60 * 60 * 24)\<rceil>)"

definition validityStatus :: "int \<Rightarrow> string" where
  "validityStatus days =
    (if days > 7 then ''good''
     else if days > 3 then ''warning''
     else if days > 0 then ''critical''
     else ''expired'')"

record payment_info =
  pi_paymentDate :: "int option"
  pi_expiryDate :: "int option"
  pi_remainingDays :: "int option"
  pi_validityDays :: int
  pi_validityStatus :: string
  pi_interval :: string

text \<open>
  The countdown of a period end \<open>e\<close> that is a number. With \<open>null\<close> on the provider's
  record, \<open>null * 1000\<close> is 0 and the countdown is that of the epoch. With the key absent,
  \<open>undefined * 1000\<close> is \<open>NaN\<close>: every comparison of the tier chain is false, so the
  tier is \<open>expired\<close>, and the date and the day count serialise as \<open>null\<close>.
\<close>

definition paymentInfo :: "int \<Rightarrow> local_subscription \<Rightarrow> stripe_subscription \<Rightarrow> payment_info" where
  "paymentInfo t ls sub =
    (let interval' = or_month (or_str (plan_interval sub) (interval ls));
         countdown = (\<lambda>e.
            \<lparr> pi_paymentDate = paymentDate ls,
              pi_expiryDate = Some (e * 1000),
              pi_remainingDays = Some (remainingDays t e),
              pi_validityDays = validityDays interval',
              pi_validityStatus = validityStatus (remainingDays t e),
              pi_interval = interval' \<rparr>)
     in case current_period_end sub of
          Some e \<Rightarrow> countdown e
        | None \<Rightarrow>
            if current_period_end_is_null sub then countdown 0
            else
              \<lparr> pi_paymentDate = paymentDate ls,
                pi_expiryDate = None,
                pi_remainingDays = None,
                pi_validityDays = validityDays interval',
                pi_validityStatus = ''expired'',
                pi_interval = interval' \<rparr>)"

datatype details_response =
    Details_NotConfigured
  | Details_NotAuthenticated
  | Details_NotFound
  | Details_Ok stripe_subscription payment_info
  | Details_Failed

definition getSubscriptionDetails ::
  "stripe_client option \<Rightarrow> user list \<Rightarrow> int \<Rightarrow> nat option \<Rightarrow> details_response" where
  "getSubscriptionDetails stripe us t req_user =
    (case stripe of
       None \<Rightarrow> Details_NotConfigured
     | Some client \<Rightarrow>
        (case req_user of
           None \<Rightarrow> Details_NotAuthenticated
         | Some uid \<Rightarrow>
            if uid = 0 then Details_NotAuthenticated
            else
              (case findByPk us uid of
                 None \<Rightarrow> Details_NotFound
               | Some u \<Rightarrow>
                  (case subscription u of
                     None \<Rightarrow> Details_NotFound
                   | Some ls \<Rightarrow>
                      (case sub_id ls of
                         None \<Rightarrow> Details_NotFound
                       | Some i \<Rightarrow>
                          if i = [] then Details_NotFound
                          else
                            (case retrieve client i of
                               None \<Rightarrow> Details_Failed
                             | Some sub \<Rightarrow> Details_Ok sub (paymentInfo t ls sub)))))))"

section \<open>Manual recovery: forceActivateSubscription\<close>

record force_view =
  f_stripeStatus :: string
  f_databaseStatus :: string
  f_id :: string
  f_status :: string
  f_interval :: string
  f_cancelAtPeriodEnd :: bool
  f_currentPeriodEnd :: "int option"
  f_isActive :: bool

datatype force_response =
    Force_NotConfigured
  | Force_NotAuthenticated
  | Force_NotFound
  | Force_Ok force_view
  | Force_Failed

text \<open>
  The best-effort provider write: \<open>stripe.subscriptions.update(subscription.id,
  { cancel_at_period_end: false })\<close> when the flag is set; a failure is caught and logged.
\<close>

definition clearProviderCancel :: "stripe_client \<Rightarrow> stripe_subscription \<Rightarrow> stripe_client" where
  "clearProviderCancel client sub =
    (if cancel_at_period_end sub \<and> \<not> update_throws client then
       (case subscriptions client (stripe_id sub) of
          None \<Rightarrow> client
        | Some s \<Rightarrow>
           client\<lparr> subscriptions :=
             (subscriptions client)(stripe_id sub \<mapsto> s\<lparr> cancel_at_period_end := False \<rparr>) \<rparr>)
     else client)"

text \<open>
  The edits of \<open>user.subscription.status\<close>, \<open>.interval\<close>, \<open>.cancelAtPeriodEnd\<close>,
  \<open>.currentPeriodEnd\<close> and \<open>.paymentDate\<close>: they are made in place, on the object the
  row was read into.
\<close>

definition forceActivated :: "int \<Rightarrow> stripe_subscription \<Rightarrow> local_subscription \<Rightarrow> local_subscription" where
  "forceActivated t sub ls =
    ls\<lparr> status := Some ''active'',
        interval := Some (or_month (plan_interval sub)),
        cancelAtPeriodEnd := Some False,
        currentPeriodEnd := Some (periodEndOf t sub),
        paymentDate := Some t \<rparr>"

text \<open>
  \<open>user.subscription\<close> is never assigned, so the attribute is not marked as changed:
  \<open>user.save()\<close> writes nothing and \<open>user.reload()\<close> puts the stored object back in
  place of \<open>forceActivated t sub ls\<close>. The user table is as it was, and the
  \<open>currentPeriodEnd\<close> of the reply, read after the reload, is the stored one; the other
  fields of the reply are literals and the provider's values.
\<close>

definition forceActivateSubscription ::
  "stripe_client option \<Rightarrow> user list \<Rightarrow> int \<Rightarrow> nat option
     \<Rightarrow> force_response \<times> user list \<times> stripe_client option" where
  "forceActivateSubscription stripe us t req_user =
    (case stripe of
       None \<Rightarrow> (Force_NotConfigured, us, stripe)
     | Some client \<Rightarrow>
        (case req_user of
           None \<Rightarrow> (Force_NotAuthenticated, us, stripe)
         | Some uid \<Rightarrow>
            if uid = 0 then (Force_NotAuthenticated, us, stripe)
            else
              (case findByPk us uid of
                 None \<Rightarrow> (Force_NotFound, us, stripe)
               | Some u \<Rightarrow>
                  (case subscription u of
                     None \<Rightarrow> (Force_NotFound, us, stripe)
                   | Some ls \<Rightarrow>
                      (case sub_id ls of
                         None \<Rightarrow> (Force_NotFound, us, stripe)
                       | Some i \<Rightarrow>
                          if i = [] then (Force_NotFound, us, stripe)
                          else
                            (case retrieve client i of
                               None \<Rightarrow> (Force_Failed, us, stripe)
                             | Some sub \<Rightarrow>
                                (Force_Ok \<lparr> f_stripeStatus = stripe_status sub,
                                            f_databaseStatus = ''active'',
                                            f_id = stripe_id sub,
                                            f_status = ''active'',
                                            f_interval = or_month (plan_interval sub),
                                            f_cancelAtPeriodEnd = False,
                                            f_currentPeriodEnd = currentPeriodEnd ls,
                                            f_isActive = True \<rparr>,
                                 us,
                                 Some (clearProviderCancel client sub))))))))"

section \<open>Observations\<close>

text \<open>
  The subscription object on the row that \<open>User.findOne({ where: { stripeCustomerId } })\<close>
  returns: what a later request of the same customer reads back.
\<close>

definition localSubscriptionOf :: "store \<Rightarrow> string \<Rightarrow> local_subscription option" where
  "localSubscriptionOf st c =
    (case findOneByCustomer (users st) c of None \<Rightarrow> None | Some u \<Rightarrow> subscription u)"

text \<open>The subscription object on the row that \<open>User.findByPk\<close> returns.\<close>

definition subscriptionOfUser :: "user list \<Rightarrow> nat \<Rightarrow> local_subscription option" where
  "subscriptionOfUser us uid =
    (case findByPk us uid of None \<Rightarrow> None | Some u \<Rightarrow> subscription u)"

section \<open>Example data\<close>

text \<open>
  Four users and the provider's records of their subscriptions, used to run the
  definitions on concrete inputs. User 1 is still \<open>incomplete\<close> locally; user 2 is
  \<open>active\<close> locally with a cached period end of 2020-09-13, while the provider reports
  \<open>incomplete\<close> and a period end of 2027-01-15; the provider's record of user 3 carries no
  period end; user 5 is \<open>active\<close> locally with a cached period end of 2033-05-18, while
  the provider reports \<open>incomplete\<close> and a period end of 2027-01-15. No user has the id 4.
  Subscription 6 belongs to a customer without a user row.
\<close>

definition ex_sub1 :: stripe_subscription where
  "ex_sub1 = \<lparr> stripe_id = ''sub_1'', stripe_status = ''incomplete'', customer = ''cus_1'',
      current_period_start = Some 1797408000, current_period_end = Some 1800000000,
      current_period_end_is_null = False, cancel_at_period_end = False,
      plan_interval = Some ''month'', price_id = Some ''price_m'' \<rparr>"

definition ex_sub2 :: stripe_subscription where
  "ex_sub2 = \<lparr> stripe_id = ''sub_2'', stripe_status = ''incomplete'', customer = ''cus_2'',
      current_period_start = Some 1768464000, current_period_end = Some 1800000000,
      current_period_end_is_null = False, cancel_at_period_end = True,
      plan_interval = Some ''year'', price_id = Some ''price_y'' \<rparr>"

definition ex_sub3 :: stripe_subscription where
  "ex_sub3 = \<lparr> stripe_id = ''sub_3'', stripe_status = ''active'', customer = ''cus_3'',
      current_period_start = None, current_period_end = None,
      current_period_end_is_null = False, cancel_at_period_end = True,
      plan_interval = Some ''month'', price_id = Some ''price_m'' \<rparr>"

definition ex_sub5 :: stripe_subscription where
  "ex_sub5 = \<lparr> stripe_id = ''sub_5'', stripe_status = ''incomplete'', customer = ''cus_5'',
      current_period_start = Some 1797408000, current_period_end = Some 1800000000,
      current_period_end_is_null = False, cancel_at_period_end = False,
      plan_interval = Some ''month'', price_id = Some ''price_m'' \<rparr>"

definition ex_sub6 :: stripe_subscription where
  "ex_sub6 = \<lparr> stripe_id = ''sub_6'', stripe_status = ''incomplete'', customer = ''cus_6'',
      current_period_start = Some 1797408000, current_period_end = Some 1800000000,
      current_period_end_is_null = False, cancel_at_period_end = False,
      plan_interval = Some ''month'', price_id = Some ''price_m'' \<rparr>"

definition ex_user1 :: user where
  "ex_user1 = \<lparr> user_id = 1, user_name = Some ''Ada'', user_email = ''ada@example.org'',
      stripeCustomerId = Some ''cus_1'',
      subscription = Some \<lparr> sub_id = Some ''sub_1'', status = Some ''incomplete'',
        currentPeriodEnd = None, paymentDate = None, interval = Some ''month'',
        cancelAtPeriodEnd = None \<rparr> \<rparr>"

definition ex_user2 :: user where
  "ex_user2 = \<lparr> user_id = 2, user_name = Some ''Bob'', user_email = ''bob@example.org'',
      stripeCustomerId = Some ''cus_2'',
      subscription = Some \<lparr> sub_id = Some ''sub_2'', status = Some ''active'',
        currentPeriodEnd = Some 1600000000000, paymentDate = Some 1597000000000,
        interval = Some ''month'', cancelAtPeriodEnd = Some False \<rparr> \<rparr>"

definition ex_user3 :: user where
  "ex_user3 = \<lparr> user_id = 3, user_name = None, user_email = ''eve@example.org'',
      stripeCustomerId = Some ''cus_3'',
      subscription = Some \<lparr> sub_id = Some ''sub_3'', status = Some ''past_due'',
        currentPeriodEnd = None, paymentDate = None, interval = None,
        cancelAtPeriodEnd = Some True \<rparr> \<rparr>"

definition ex_user5 :: user where
  "ex_user5 = \<lparr> user_id = 5, user_name = Some ''Dan'', user_email = ''dan@example.org'',
      stripeCustomerId = Some ''cus_5'',
      subscription = Some \<lparr> sub_id = Some ''sub_5'', status = Some ''active'',
        currentPeriodEnd = Some 2000000000000, paymentDate = Some 1997408000000,
        interval = Some ''month'', cancelAtPeriodEnd = Some False \<rparr> \<rparr>"

definition ex_users :: "user list" where
  "ex_users = [ex_user1, ex_user2, ex_user3, ex_user5]"

definition ex_store :: store where
  "ex_store = \<lparr> users = ex_users, invoices = [] \<rparr>"

text \<open>
  Events: a paid invoice of customer 1, a charge linked to subscription 1, a charge
  linked to a subscription the provider does not know, and a charge linked to
  subscription 6.
\<close>

definition ex_invoicePaid :: stripe_invoice where
  "ex_invoicePaid = \<lparr> inv_id = ''in_1'', inv_customer = ''cus_1'', inv_subscription = Some ''sub_1'',
      period_end = 1800000000, amount_paid = 999, inv_currency = ''usd'' \<rparr>"

definition ex_charge :: stripe_payment where
  "ex_charge = \<lparr> pay_id = ''ch_1'', metadata_subscription_id = Some ''sub_1'', pay_amount = 999,
      pay_currency = ''usd'', pay_invoice = None \<rparr>"

definition ex_chargeUnknown :: stripe_payment where
  "ex_chargeUnknown = \<lparr> pay_id = ''ch_2'', metadata_subscription_id = Some ''sub_gone'',
      pay_amount = 999, pay_currency = ''usd'', pay_invoice = None \<rparr>"

definition ex_chargeOrphan :: stripe_payment where
  "ex_chargeOrphan = \<lparr> pay_id = ''ch_3'', metadata_subscription_id = Some ''sub_6'',
      pay_amount = 999, pay_currency = ''usd'', pay_invoice = None \<rparr>"

text \<open>
  The example client accepts the signature \<open>good\<close> and parses the body by its tag.
\<close>

definition ex_constructEvent :: "string \<Rightarrow> string option \<Rightarrow> string option \<Rightarrow> event option" where
  "ex_constructEvent b sg secret =
    (if sg = Some ''good'' \<and> secret = Some ''whsec'' then
       (if b = ''invoice.payment_succeeded'' then Some (InvoicePaymentSucceeded ex_invoicePaid)
        else if b = ''charge.succeeded'' then Some (ChargeSucceeded ex_charge)
        else if b = ''charge.succeeded unknown'' then Some (ChargeSucceeded ex_chargeUnknown)
        else if b = ''charge.succeeded orphan'' then Some (ChargeSucceeded ex_chargeOrphan)
        else Some (Unhandled b))
     else None)"

definition ex_client :: stripe_client where
  "ex_client = \<lparr> constructEvent = ex_constructEvent,
      subscriptions = [''sub_1'' \<mapsto> ex_sub1, ''sub_2'' \<mapsto> ex_sub2, ''sub_3'' \<mapsto> ex_sub3,
        ''sub_5'' \<mapsto> ex_sub5, ''sub_6'' \<mapsto> ex_sub6],
      update_throws = False \<rparr>"

definition ex_request :: "string \<Rightarrow> string \<Rightarrow> webhook_request" where
  "ex_request b sg = \<lparr> body = b, signature = Some sg \<rparr>"

definition ex_clock1 :: outside where
  "ex_clock1 = \<lparr> now = 1700000000000, invoice_now = 1700000000003, invoice_rnd = ''K3J9X0QAB'',
      findOne_throws = False, save_throws = False, create_throws = False \<rparr>"

definition ex_clock2 :: outside where
  "ex_clock2 = \<lparr> now = 1700000060000, invoice_now = 1700000060002, invoice_rnd = ''7ZP2M4LQW'',
      findOne_throws = False, save_throws = False, create_throws = False \<rparr>"

lemmas ex_defs = ex_sub1_def ex_sub2_def ex_sub3_def ex_sub5_def ex_sub6_def
  ex_user1_def ex_user2_def ex_user3_def ex_user5_def
  ex_users_def ex_store_def ex_invoicePaid_def ex_charge_def ex_chargeUnknown_def
  ex_chargeOrphan_def ex_constructEvent_def ex_client_def ex_request_def ex_clock1_def
  ex_clock2_def

section \<open>The countdown view\<close>

lemma remainingDays_whole_days: "remainingDays (e * 1000 - k * 86400000) e = max 0 k"
proof -
  have "(of_int (e * 1000 - (e * 1000 - k * 86400000)) :: rat) / (1000 * 60 * 60 * 24) = of_int k"
    by simp
  then show ?thesis
    unfolding remainingDays_def Let_def by (simp only: ceiling_of_int)
qed

lemma remainingDays_offset:
  assumes "e * 1000 - t = k * 86400000"
  shows "remainingDays t e = max 0 k"
proof -
  have "t = e * 1000 - k * 86400000" using assms by simp
  then show ?thesis by (simp only: remainingDays_whole_days)
qed

lemma validityStatus_tiers:
  "(validityStatus d = ''good'' \<longleftrightarrow> 7 < d)
 \<and> (validityStatus d = ''warning'' \<longleftrightarrow> 4 \<le> d \<and> d \<le> 7)
 \<and> (validityStatus d = ''critical'' \<longleftrightarrow> 1 \<le> d \<and> d \<le> 3)
 \<and> (validityStatus d = ''expired'' \<longleftrightarrow> d \<le> 0)"
  by (auto simp: validityStatus_def)

lemma getSubscriptionDetails_countdown:
  assumes "uid \<noteq> 0" "findByPk us uid = Some u" "subscription u = Some ls"
    and "sub_id ls = Some i" "i \<noteq> []" "retrieve client i = Some sub"
    and "current_period_end sub = Some e"
  shows "getSubscriptionDetails (Some client) us t (Some uid) = Details_Ok sub (paymentInfo t ls sub)"
    and "pi_remainingDays (paymentInfo t ls sub) = Some (remainingDays t e)"
    and "pi_validityStatus (paymentInfo t ls sub) = validityStatus (remainingDays t e)"
  using assms by (simp_all add: getSubscriptionDetails_def paymentInfo_def Let_def)

text \<open>
  C5. When the details endpoint finds the caller's subscription and the provider's record
  carries the period end \<open>e\<close> (in seconds), its reply at the clock \<open>t\<close> (in milliseconds)
  carries as \<open>remainingDays\<close> the ceiling of the difference in days, clamped at 0, and as
  \<open>validityStatus\<close> the tier \<open>good\<close> above 7 days, \<open>warning\<close> for 4 to 7, \<open>critical\<close>
  for 1 to 3 and \<open>expired\<close> at 0. A period end 8 days after the clock gives \<open>good\<close>,
  5 days \<open>warning\<close>, 2 days \<open>critical\<close>, and a period end one day before the clock gives
  \<open>expired\<close> with 0 remaining days.
\<close>

theorem countdown_view:
  assumes "uid \<noteq> 0" "findByPk us uid = Some u" "subscription u = Some ls"
    and "sub_id ls = Some i" "i \<noteq> []" "retrieve client i = Some sub"
    and "current_period_end sub = Some e"
  shows "getSubscriptionDetails (Some client) us t (Some uid) = Details_Ok sub (paymentInfo t ls sub)
       \<and> (\<exists>d. pi_remainingDays (paymentInfo t ls sub) = Some d
              \<and> d = max 0 \<lceil>(of_int (e * 1000 - t) :: rat) / 86400000\<rceil>
              \<and> (pi_validityStatus (paymentInfo t ls sub) = ''good'' \<longleftrightarrow> 7 < d)
              \<and> (pi_validityStatus (paymentInfo t ls sub) = ''warning'' \<longleftrightarrow> 4 \<le> d \<and> d \<le> 7)
              \<and> (pi_validityStatus (paymentInfo t ls sub) = ''critical'' \<longleftrightarrow> 1 \<le> d \<and> d \<le> 3)
              \<and> (pi_validityStatus (paymentInfo t ls sub) = ''expired'' \<longleftrightarrow> d \<le> 0))
       \<and> (e * 1000 - t = 8 * 86400000 \<longrightarrow>
              pi_remainingDays (paymentInfo t ls sub) = Some 8
            \<and> pi_validityStatus (paymentInfo t ls sub) = ''good'')
       \<and> (e * 1000 - t = 5 * 86400000 \<longrightarrow>
              pi_remainingDays (paymentInfo t ls sub) = Some 5
            \<and> pi_validityStatus (paymentInfo t ls sub) = ''warning'')
       \<and> (e * 1000 - t = 2 * 86400000 \<longrightarrow>
              pi_remainingDays (paymentInfo t ls sub) = Some 2
            \<and> pi_validityStatus (paymentInfo t ls sub) = ''critical'')
       \<and> (e * 1000 - t = - 86400000 \<longrightarrow>
              pi_remainingDays (paymentInfo t ls sub) = Some 0
            \<and> pi_validityStatus (paymentInfo t ls sub) = ''expired'')"
proof -
  note c = getSubscriptionDetails_countdown [OF assms, of t]
  have d: "remainingDays t e = max 0 \<lceil>(of_int (e * 1000 - t) :: rat) / 86400000\<rceil>"
    by (simp add: remainingDays_def Let_def)
  have tiers: "\<exists>d. pi_remainingDays (paymentInfo t ls sub) = Some d
              \<and> d = max 0 \<lceil>(of_int (e * 1000 - t) :: rat) / 86400000\<rceil>
              \<and> (pi_validityStatus (paymentInfo t ls sub) = ''good'' \<longleftrightarrow> 7 < d)
              \<and> (pi_validityStatus (paymentInfo t ls sub) = ''warning'' \<longleftrightarrow> 4 \<le> d \<and> d \<le> 7)
              \<and> (pi_validityStatus (paymentInfo t ls sub) = ''critical'' \<longleftrightarrow> 1 \<le> d \<and> d \<le> 3)
              \<and> (pi_validityStatus (paymentInfo t ls sub) = ''expired'' \<longleftrightarrow> d \<le> 0)"
    using validityStatus_tiers [of "remainingDays t e"] d c(2,3)
    by (intro exI [of _ "remainingDays t e"]) simp
  have g: "e * 1000 - t = 8 * 86400000 \<longrightarrow>
              pi_remainingDays (paymentInfo t ls sub) = Some 8
            \<and> pi_validityStatus (paymentInfo t ls sub) = ''good''"
    using remainingDays_offset [of e t 8] c(2,3) by (simp add: validityStatus_def)
  have w: "e * 1000 - t = 5 * 86400000 \<longrightarrow>
              pi_remainingDays (paymentInfo t ls sub) = Some 5
            \<and> pi_validityStatus (paymentInfo t ls sub) = ''warning''"
    using remainingDays_offset [of e t 5] c(2,3) by (simp add: validityStatus_def)
  have cr: "e * 1000 - t = 2 * 86400000 \<longrightarrow>
              pi_remainingDays (paymentInfo t ls sub) = Some 2
            \<and> pi_validityStatus (paymentInfo t ls sub) = ''critical''"
    using remainingDays_offset [of e t 2] c(2,3) by (simp add: validityStatus_def)
  have x: "e * 1000 - t = - 86400000 \<longrightarrow>
              pi_remainingDays (paymentInfo t ls sub) = Some 0
            \<and> pi_validityStatus (paymentInfo t ls sub) = ''expired''"
    using remainingDays_offset [of e t "-1"] c(2,3) by (simp add: validityStatus_def)
  show ?thesis
    using c(1) tiers g w cr x by (intro conjI)
qed

lemma ex_user2_details:
  "(2::nat) \<noteq> 0"
  "findByPk ex_users 2 = Some ex_user2"
  "subscription ex_user2 = Some \<lparr> sub_id = Some ''sub_2'', status = Some ''active'',
        currentPeriodEnd = Some 1600000000000, paymentDate = Some 1597000000000,
        interval = Some ''month'', cancelAtPeriodEnd = Some False \<rparr>"
  "sub_id \<lparr> sub_id = Some ''sub_2'', status = Some ''active'',
        currentPeriodEnd = Some 1600000000000, paymentDate = Some 1597000000000,
        interval = Some ''month'', cancelAtPeriodEnd = Some False \<rparr> = Some ''sub_2''"
  "''sub_2'' \<noteq> []"
  "retrieve ex_client ''sub_2'' = Some ex_sub2"
  "current_period_end ex_sub2 = Some 1800000000"
  by (simp_all add: findByPk_def retrieve_def ex_defs)

theorem countdown_view_witness:
  "getSubscriptionDetails (Some ex_client) ex_users 1799308800000 (Some 2) =
     Details_Ok ex_sub2 (paymentInfo 1799308800000
        \<lparr> sub_id = Some ''sub_2'', status = Some ''active'',
          currentPeriodEnd = Some 1600000000000, paymentDate = Some 1597000000000,
          interval = Some ''month'', cancelAtPeriodEnd = Some False \<rparr> ex_sub2)
 \<and> pi_remainingDays (paymentInfo 1799308800000
        \<lparr> sub_id = Some ''sub_2'', status = Some ''active'',
          currentPeriodEnd = Some 1600000000000, paymentDate = Some 1597000000000,
          interval = Some ''month'', cancelAtPeriodEnd = Some False \<rparr> ex_sub2) = Some 8
 \<and> pi_validityStatus (paymentInfo 1799308800000
        \<lparr> sub_id = Some ''sub_2'', status = Some ''active'',
          currentPeriodEnd = Some 1600000000000, paymentDate = Some 1597000000000,
          interval = Some ''month'', cancelAtPeriodEnd = Some False \<rparr> ex_sub2) = ''good''
 \<and> pi_validityStatus (paymentInfo 1799568000000
        \<lparr> sub_id = Some ''sub_2'', status = Some ''active'',
          currentPeriodEnd = Some 1600000000000, paymentDate = Some 1597000000000,
          interval = Some ''month'', cancelAtPeriodEnd = Some False \<rparr> ex_sub2) = ''warning''
 \<and> pi_validityStatus (paymentInfo 1799827200000
        \<lparr> sub_id = Some ''sub_2'', status = Some ''active'',
          currentPeriodEnd = Some 1600000000000, paymentDate = Some 1597000000000,
          interval = Some ''month'', cancelAtPeriodEnd = Some False \<rparr> ex_sub2) = ''critical''
 \<and> pi_validityStatus (paymentInfo 1800086400000
        \<lparr> sub_id = Some ''sub_2'', status = Some ''active'',
          currentPeriodEnd = Some 1600000000000, paymentDate = Some 1597000000000,
          interval = Some ''month'', cancelAtPeriodEnd = Some False \<rparr> ex_sub2) = ''expired''
 \<and> pi_remainingDays (paymentInfo 1800086400000
        \<lparr> sub_id = Some ''sub_2'', status = Some ''active'',
          currentPeriodEnd = Some 1600000000000, paymentDate = Some 1597000000000,
          interval = Some ''month'', cancelAtPeriodEnd = Some False \<rparr> ex_sub2) = Some 0"
  using countdown_view [OF ex_user2_details, of 1799308800000]
    countdown_view [OF ex_user2_details, of 1799568000000]
    countdown_view [OF ex_user2_details, of 1799827200000]
    countdown_view [OF ex_user2_details, of 1800086400000]
  by simp

section \<open>The status reconciler\<close>

lemma getSubscriptionStatus_found:
  assumes "uid \<noteq> 0" "findByPk us uid = Some u" "subscription u = Some ls"
    "sub_id ls = Some i" "i \<noteq> []" "retrieve client i = Some sub"
  shows "getSubscriptionStatus (Some client) us t (Some uid) = Status_Ok (statusView t ls sub)"
  using assms by (simp add: getSubscriptionStatus_def)

lemma statusView_expired:
  assumes "status ls = Some ''active''" "current_period_end sub = Some e" "e \<noteq> 0" "e * 1000 < t"
  shows "v_isActive (statusView t ls sub) = False" "v_status (statusView t ls sub) = ''expired''"
  using assms by (simp_all add: statusView_def resolveStatus_def truthy_num_def Let_def)

lemma statusView_fields:
  "v_cancelAtPeriodEnd (statusView t ls sub) = cancel_at_period_end sub"
  "v_willCancelAtPeriodEnd (statusView t ls sub) = cancel_at_period_end sub"
  "v_interval (statusView t ls sub) = or_month (or_str (interval ls) (plan_interval sub))"
  "v_currentPeriodEnd (statusView t ls sub) =
     (case currentPeriodEnd ls of Some ms \<Rightarrow> Some (ms div 1000) | None \<Rightarrow> current_period_end sub)"
  by (simp_all add: statusView_def Let_def)

text \<open>
  C4. For an authenticated caller whose user row is absent, has no subscription object or
  has a subscription object without a truthy id, the status endpoint answers with
  \<open>{ subscription: null }\<close>, which is none of the replies that carry a status.
\<close>

theorem getStatus_none:
  assumes "uid \<noteq> 0"
    and "case findByPk us uid of
           None \<Rightarrow> True
         | Some u \<Rightarrow> (case subscription u of None \<Rightarrow> True | Some ls \<Rightarrow> \<not> truthy_str (sub_id ls))"
  shows "getSubscriptionStatus (Some client) us t (Some uid) = Status_None
       \<and> (\<forall>v. getSubscriptionStatus (Some client) us t (Some uid) \<noteq> Status_Ok v)"
proof -
  have "getSubscriptionStatus (Some client) us t (Some uid) = Status_None"
    using assms
    by (auto simp: getSubscriptionStatus_def truthy_str_def split: option.splits)
  then show ?thesis by simp
qed

theorem getStatus_none_witness:
  "(4::nat) \<noteq> 0 \<and> findByPk ex_users 4 = None
 \<and> getSubscriptionStatus (Some ex_client) ex_users 1700000000000 (Some 4) = Status_None"
proof -
  have f: "findByPk ex_users 4 = None"
    by (simp add: findByPk_def ex_defs)
  have h: "case findByPk ex_users 4 of
             None \<Rightarrow> True
           | Some u \<Rightarrow> (case subscription u of None \<Rightarrow> True | Some ls \<Rightarrow> \<not> truthy_str (sub_id ls))"
    by (simp add: f)
  have n: "(4::nat) \<noteq> 0" by simp
  show ?thesis
    using getStatus_none [OF n h, of ex_client 1700000000000] f by simp
qed

lemma ex_user2_found:
  "(2::nat) \<noteq> 0"
  "findByPk ex_users 2 = Some ex_user2"
  "subscription ex_user2 = Some \<lparr> sub_id = Some ''sub_2'', status = Some ''active'',
        currentPeriodEnd = Some 1600000000000, paymentDate = Some 1597000000000,
        interval = Some ''month'', cancelAtPeriodEnd = Some False \<rparr>"
  "retrieve ex_client ''sub_2'' = Some ex_sub2"
  by (simp_all add: findByPk_def retrieve_def ex_defs)

text \<open>
  C2, as amended. When the stored status is \<open>active\<close> and the period end reported by the
  provider is set (not 0) and lies before the clock of the call, the status endpoint
  reports \<open>isActive = false\<close> and \<open>status = expired\<close>. The period end cached on the
  local record is not consulted.
\<close>

theorem getStatus_expired:
  assumes "uid \<noteq> 0" "findByPk us uid = Some u" "subscription u = Some ls"
    and "sub_id ls = Some i" "i \<noteq> []" "retrieve client i = Some sub"
    and "status ls = Some ''active''"
    and "current_period_end sub = Some e" "e \<noteq> 0" "e * 1000 < t"
  shows "getSubscriptionStatus (Some client) us t (Some uid) = Status_Ok (statusView t ls sub)
       \<and> v_isActive (statusView t ls sub) = False
       \<and> v_status (statusView t ls sub) = ''expired''"
  using getSubscriptionStatus_found [OF assms(1-6)] statusView_expired [OF assms(7-10)]
  by simp

theorem getStatus_expired_witness:
  "getSubscriptionStatus (Some ex_client) ex_users 1900000000000 (Some 2) =
     Status_Ok \<lparr> v_id = ''sub_2'', v_status = ''expired'',
       v_currentPeriodStart = Some 1768464000, v_currentPeriodEnd = Some 1600000000,
       v_cancelAtPeriodEnd = True, v_plan = Some ''price_y'', v_interval = ''month'',
       v_isActive = False, v_paymentDate = Some 1597000000000,
       v_willCancelAtPeriodEnd = True \<rparr>"
proof -
  have e: "current_period_end ex_sub2 = Some 1800000000" "(1800000000::int) \<noteq> 0"
    "(1800000000::int) * 1000 < 1900000000000"
    by (simp_all add: ex_defs)
  have r: "getSubscriptionStatus (Some ex_client) ex_users 1900000000000 (Some 2) =
      Status_Ok (statusView 1900000000000
        \<lparr> sub_id = Some ''sub_2'', status = Some ''active'',
          currentPeriodEnd = Some 1600000000000, paymentDate = Some 1597000000000,
          interval = Some ''month'', cancelAtPeriodEnd = Some False \<rparr> ex_sub2)"
    using getStatus_expired [OF ex_user2_found(1-3) _ _ ex_user2_found(4) _ e] by simp
  show ?thesis
    unfolding r
    by (simp add: statusView_def resolveStatus_def truthy_num_def or_month_def or_str_def
        truthy_str_def Let_def ex_defs)
qed

text \<open>
  For user 2 the stored status is \<open>active\<close> and the stored \<open>currentPeriodEnd\<close>
  (2020-09-13) lies before the clock (2023-11-14), while the provider's period end
  (2027-01-15) does not: the endpoint reports \<open>active\<close> and \<open>isActive = true\<close>, together
  with the stored period end.
\<close>

theorem getStatus_expired_counterexample:
  "findByPk ex_users 2 = Some ex_user2
 \<and> map_option status (subscription ex_user2) = Some (Some ''active'')
 \<and> map_option currentPeriodEnd (subscription ex_user2) = Some (Some 1600000000000)
 \<and> (1600000000000::int) < 1700000000000
 \<and> getSubscriptionStatus (Some ex_client) ex_users 1700000000000 (Some 2) =
     Status_Ok \<lparr> v_id = ''sub_2'', v_status = ''active'',
       v_currentPeriodStart = Some 1768464000, v_currentPeriodEnd = Some 1600000000,
       v_cancelAtPeriodEnd = True, v_plan = Some ''price_y'', v_interval = ''month'',
       v_isActive = True, v_paymentDate = Some 1597000000000,
       v_willCancelAtPeriodEnd = True \<rparr>"
proof -
  have "getSubscriptionStatus (Some ex_client) ex_users 1700000000000 (Some 2) =
      Status_Ok (statusView 1700000000000
        \<lparr> sub_id = Some ''sub_2'', status = Some ''active'',
          currentPeriodEnd = Some 1600000000000, paymentDate = Some 1597000000000,
          interval = Some ''month'', cancelAtPeriodEnd = Some False \<rparr> ex_sub2)"
    using getSubscriptionStatus_found [OF ex_user2_found(1-3) _ _ ex_user2_found(4)] by simp
  then show ?thesis
    using ex_user2_found(2,3)
    by (simp add: statusView_def resolveStatus_def truthy_num_def or_month_def or_str_def
        truthy_str_def Let_def ex_sub2_def)
qed

lemma statusView_status_cases:
  "((\<forall>e. current_period_end sub = Some e \<longrightarrow> e = 0 \<or> t \<le> e * 1000) \<longrightarrow>
        v_status (statusView t ls sub) =
          (if status ls = Some ''active'' then ''active'' else stripe_status sub))
 \<and> (status ls \<noteq> Some ''active'' \<and> stripe_status sub \<noteq> ''active''
        \<and> stripe_status sub \<noteq> ''trialing'' \<longrightarrow>
        v_status (statusView t ls sub) = stripe_status sub)
 \<and> ((\<exists>e. current_period_end sub = Some e \<and> e \<noteq> 0 \<and> e * 1000 < t)
        \<and> (status ls = Some ''active'' \<or> stripe_status sub = ''active''
             \<or> stripe_status sub = ''trialing'') \<longrightarrow>
        v_status (statusView t ls sub) = ''expired'')"
  by (cases "current_period_end sub")
     (auto simp: statusView_def resolveStatus_def truthy_num_def Let_def)

lemma ex_user5_found:
  "(5::nat) \<noteq> 0"
  "findByPk ex_users 5 = Some ex_user5"
  "subscription ex_user5 = Some \<lparr> sub_id = Some ''sub_5'', status = Some ''active'',
        currentPeriodEnd = Some 2000000000000, paymentDate = Some 1997408000000,
        interval = Some ''month'', cancelAtPeriodEnd = Some False \<rparr>"
  "retrieve ex_client ''sub_5'' = Some ex_sub5"
  by (simp_all add: findByPk_def retrieve_def ex_defs)

text \<open>
  C3, as amended. While the period end reported by the provider is absent (or 0) or has
  not passed, the reported status is \<open>active\<close> when the stored status is \<open>active\<close>,
  whatever the provider reports, and the provider's status when the stored status is
  anything else; the stored \<open>currentPeriodEnd\<close> is not consulted. Once the provider's
  period end has passed, a stored status of \<open>active\<close> and a provider status of \<open>active\<close>
  or \<open>trialing\<close> are reported as \<open>expired\<close>; a provider status other than these two is
  reported as it is whenever the stored status is not \<open>active\<close>.
\<close>

theorem getStatus_tie_break:
  assumes "uid \<noteq> 0" "findByPk us uid = Some u" "subscription u = Some ls"
    and "sub_id ls = Some i" "i \<noteq> []" "retrieve client i = Some sub"
  shows "getSubscriptionStatus (Some client) us t (Some uid) = Status_Ok (statusView t ls sub)
       \<and> ((\<forall>e. current_period_end sub = Some e \<longrightarrow> e = 0 \<or> t \<le> e * 1000) \<longrightarrow>
              v_status (statusView t ls sub) =
                (if status ls = Some ''active'' then ''active'' else stripe_status sub))
       \<and> (status ls \<noteq> Some ''active'' \<and> stripe_status sub \<noteq> ''active''
              \<and> stripe_status sub \<noteq> ''trialing'' \<longrightarrow>
              v_status (statusView t ls sub) = stripe_status sub)
       \<and> ((\<exists>e. current_period_end sub = Some e \<and> e \<noteq> 0 \<and> e * 1000 < t)
              \<and> (status ls = Some ''active'' \<or> stripe_status sub = ''active''
                   \<or> stripe_status sub = ''trialing'') \<longrightarrow>
              v_status (statusView t ls sub) = ''expired'')"
  using getSubscriptionStatus_found [OF assms, of t] statusView_status_cases [of sub t ls]
  by (intro conjI) simp_all

theorem getStatus_tie_break_witness:
  "stripe_status ex_sub5 = ''incomplete''
 \<and> getSubscriptionStatus (Some ex_client) ex_users 1700000000000 (Some 5) =
     Status_Ok (statusView 1700000000000
        \<lparr> sub_id = Some ''sub_5'', status = Some ''active'',
          currentPeriodEnd = Some 2000000000000, paymentDate = Some 1997408000000,
          interval = Some ''month'', cancelAtPeriodEnd = Some False \<rparr> ex_sub5)
 \<and> v_status (statusView 1700000000000
        \<lparr> sub_id = Some ''sub_5'', status = Some ''active'',
          currentPeriodEnd = Some 2000000000000, paymentDate = Some 1997408000000,
          interval = Some ''month'', cancelAtPeriodEnd = Some False \<rparr> ex_sub5) = ''active''"
proof -
  have e: "\<forall>e. current_period_end ex_sub5 = Some e \<longrightarrow> e = 0 \<or> 1700000000000 \<le> e * 1000"
    by (simp add: ex_defs)
  show ?thesis
    using getStatus_tie_break [OF ex_user5_found(1-3) _ _ ex_user5_found(4), of 1700000000000] e
    by (simp add: ex_sub5_def)
qed

text \<open>
  For user 5 the stored status is \<open>active\<close>, the provider reports \<open>incomplete\<close>, and the
  stored \<open>currentPeriodEnd\<close> (2033-05-18) has not passed at the clock (2030-03-17), while
  the provider's period end (2027-01-15) has: the endpoint reports \<open>expired\<close>.
\<close>

theorem getStatus_tie_break_counterexample:
  "findByPk ex_users 5 = Some ex_user5
 \<and> map_option status (subscription ex_user5) = Some (Some ''active'')
 \<and> map_option currentPeriodEnd (subscription ex_user5) = Some (Some 2000000000000)
 \<and> (1900000000000::int) < 2000000000000
 \<and> stripe_status ex_sub5 = ''incomplete''
 \<and> getSubscriptionStatus (Some ex_client) ex_users 1900000000000 (Some 5) =
     Status_Ok \<lparr> v_id = ''sub_5'', v_status = ''expired'',
       v_currentPeriodStart = Some 1797408000, v_currentPeriodEnd = Some 2000000000,
       v_cancelAtPeriodEnd = False, v_plan = Some ''price_m'', v_interval = ''month'',
       v_isActive = False, v_paymentDate = Some 1997408000000,
       v_willCancelAtPeriodEnd = False \<rparr>"
proof -
  have "getSubscriptionStatus (Some ex_client) ex_users 1900000000000 (Some 5) =
      Status_Ok (statusView 1900000000000
        \<lparr> sub_id = Some ''sub_5'', status = Some ''active'',
          currentPeriodEnd = Some 2000000000000, paymentDate = Some 1997408000000,
          interval = Some ''month'', cancelAtPeriodEnd = Some False \<rparr> ex_sub5)"
    using getSubscriptionStatus_found [OF ex_user5_found(1-3) _ _ ex_user5_found(4)] by simp
  then show ?thesis
    using ex_user5_found(2,3)
    by (simp add: statusView_def resolveStatus_def truthy_num_def or_month_def or_str_def
        truthy_str_def Let_def ex_sub5_def)
qed

text \<open>
  C10. In every reply that carries a status, \<open>cancelAtPeriodEnd\<close> and
  \<open>willCancelAtPeriodEnd\<close> are the provider's \<open>cancel_at_period_end\<close>, whatever the
  local record holds. The interval and the period end of the reply are the local values
  when the local record has them, and a stored status of \<open>active\<close> is reported unless the
  expiry override replaces it.
\<close>

theorem getStatus_cancel_flag_from_provider:
  assumes "uid \<noteq> 0" "findByPk us uid = Some u" "subscription u = Some ls"
    and "sub_id ls = Some i" "i \<noteq> []" "retrieve client i = Some sub"
  shows "getSubscriptionStatus (Some client) us t (Some uid) = Status_Ok (statusView t ls sub)
       \<and> v_cancelAtPeriodEnd (statusView t ls sub) = cancel_at_period_end sub
       \<and> v_willCancelAtPeriodEnd (statusView t ls sub) = cancel_at_period_end sub
       \<and> (\<forall>b. v_cancelAtPeriodEnd (statusView t (ls\<lparr> cancelAtPeriodEnd := b \<rparr>) sub) =
                cancel_at_period_end sub)
       \<and> (truthy_str (interval ls) \<longrightarrow> Some (v_interval (statusView t ls sub)) = interval ls)
       \<and> (\<forall>ms. currentPeriodEnd ls = Some ms \<longrightarrow>
                v_currentPeriodEnd (statusView t ls sub) = Some (ms div 1000))
       \<and> (status ls = Some ''active'' \<longrightarrow>
             v_status (statusView t ls sub) = ''active''
             \<or> v_status (statusView t ls sub) = ''expired'')"
proof -
  have i: "truthy_str (interval ls) \<longrightarrow> Some (v_interval (statusView t ls sub)) = interval ls"
    by (auto simp: statusView_fields or_month_def or_str_def truthy_str_def split: option.splits)
  have p: "\<forall>ms. currentPeriodEnd ls = Some ms \<longrightarrow>
                v_currentPeriodEnd (statusView t ls sub) = Some (ms div 1000)"
    by (simp add: statusView_fields)
  have a: "status ls = Some ''active'' \<longrightarrow>
             v_status (statusView t ls sub) = ''active''
             \<or> v_status (statusView t ls sub) = ''expired''"
    by (simp add: statusView_def resolveStatus_def Let_def)
  show ?thesis
    using getSubscriptionStatus_found [OF assms] i p a by (simp add: statusView_fields)
qed

theorem getStatus_cancel_flag_from_provider_witness:
  "map_option cancelAtPeriodEnd (subscription ex_user2) = Some (Some False)
 \<and> cancel_at_period_end ex_sub2 = True
 \<and> v_cancelAtPeriodEnd (statusView 1700000000000
        \<lparr> sub_id = Some ''sub_2'', status = Some ''active'',
          currentPeriodEnd = Some 1600000000000, paymentDate = Some 1597000000000,
          interval = Some ''month'', cancelAtPeriodEnd = Some False \<rparr> ex_sub2) = True
 \<and> v_willCancelAtPeriodEnd (statusView 1700000000000
        \<lparr> sub_id = Some ''sub_2'', status = Some ''active'',
          currentPeriodEnd = Some 1600000000000, paymentDate = Some 1597000000000,
          interval = Some ''month'', cancelAtPeriodEnd = Some False \<rparr> ex_sub2) = True
 \<and> v_interval (statusView 1700000000000
        \<lparr> sub_id = Some ''sub_2'', status = Some ''active'',
          currentPeriodEnd = Some 1600000000000, paymentDate = Some 1597000000000,
          interval = Some ''month'', cancelAtPeriodEnd = Some False \<rparr> ex_sub2) = ''month''
 \<and> v_currentPeriodEnd (statusView 1700000000000
        \<lparr> sub_id = Some ''sub_2'', status = Some ''active'',
          currentPeriodEnd = Some 1600000000000, paymentDate = Some 1597000000000,
          interval = Some ''month'', cancelAtPeriodEnd = Some False \<rparr> ex_sub2) = Some 1600000000"
  using getStatus_cancel_flag_from_provider
    [OF ex_user2_found(1-3) _ _ ex_user2_found(4), of 1700000000000]
    ex_user2_found(3)
  by (simp add: ex_sub2_def truthy_str_def)

section \<open>The user table\<close>

lemma find_save:
  assumes "find P us = Some u" "P u'" "user_id u' = user_id u"
  shows "find P (save u' us) = Some u'"
  using assms
proof (induction us)
  case Nil
  then show ?case by simp
next
  case (Cons x xs)
  show ?case
  proof (cases "P x")
    case True
    with Cons.prems have "x = u" by simp
    with Cons.prems show ?thesis by (simp add: save_def)
  next
    case False
    with Cons.prems have "find P xs = Some u" by simp
    then have "find P (save u' xs) = Some u'" using Cons.IH Cons.prems by simp
    then show ?thesis using False Cons.prems(2) by (simp add: save_def)
  qed
qed

lemma findOneByCustomer_save:
  assumes "findOneByCustomer us c = Some u" "stripeCustomerId u' = Some c" "user_id u' = user_id u"
  shows "findOneByCustomer (save u' us) c = Some u'"
  using assms unfolding findOneByCustomer_def by (rule find_save)

lemma findOneByCustomer_customer:
  "findOneByCustomer us c = Some u \<Longrightarrow> stripeCustomerId u = Some c"
  unfolding findOneByCustomer_def by (auto simp: find_Some_iff)

section \<open>The invoice side effect\<close>

lemma handleSuccessfulPayment_at_most_one:
  "handleSuccessfulPayment clk sd u invs = invs
   \<or> (\<exists>row. handleSuccessfulPayment clk sd u invs = invs @ [row])"
  by (cases "generateInvoice clk sd u invs") (simp_all add: handleSuccessfulPayment_def)

lemma handleSuccessfulPayment_created:
  assumes "or_str (sd_id sd) (sd_subscriptionId sd) = Some s" "sd_amount sd \<noteq> 0"
    "newInvoiceId clk \<notin> invoiceId ` set invs" "\<not> create_throws clk"
  shows "\<exists>row. handleSuccessfulPayment clk sd u invs = invs @ [row]
           \<and> invoiceId row = newInvoiceId clk \<and> subscriptionId row = s \<and> userId row = user_id u"
  using assms by (simp add: handleSuccessfulPayment_def generateInvoice_def)

lemma invoiceData_ok:
  assumes "inv_subscription ip = Some s" "amount_paid ip \<noteq> 0"
  shows "or_str (sd_id (invoiceData ip)) (sd_subscriptionId (invoiceData ip)) = Some s"
    and "sd_amount (invoiceData ip) \<noteq> 0"
  using assms by (auto simp: invoiceData_def or_str_def)

lemma paymentData_ok:
  assumes "pay_amount pay \<noteq> 0"
  shows "or_str (sd_id (paymentData sid pay)) (sd_subscriptionId (paymentData sid pay)) = Some sid"
    and "sd_amount (paymentData sid pay) \<noteq> 0"
  using assms by (auto simp: paymentData_def or_str_def)

section \<open>The webhook handler\<close>

lemma onInvoicePaymentSucceeded_step:
  assumes "findOneByCustomer (users st) (inv_customer ip) = Some u"
    "\<not> findOne_throws clk" "\<not> save_throws clk"
  shows "\<exists>u' ls.
      onInvoicePaymentSucceeded clk ip st =
        Some \<lparr> users = save u' (users st),
               invoices = handleSuccessfulPayment clk (invoiceData ip) u' (invoices st) \<rparr>
    \<and> findOneByCustomer (save u' (users st)) (inv_customer ip) = Some u'
    \<and> subscription u' = Some ls
    \<and> status ls = Some ''active''
    \<and> currentPeriodEnd ls = Some (period_end ip * 1000)"
proof -
  define u' where "u' = u\<lparr> subscription := Some ((spread (subscription u))
                    \<lparr> status := Some ''active'',
                      currentPeriodEnd := Some (period_end ip * 1000),
                      paymentDate := Some (now clk) \<rparr>) \<rparr>"
  have c: "stripeCustomerId u' = Some (inv_customer ip)" "user_id u' = user_id u"
    using findOneByCustomer_customer [OF assms(1)] by (simp_all add: u'_def)
  have f: "findOneByCustomer (save u' (users st)) (inv_customer ip) = Some u'"
    using findOneByCustomer_save [OF assms(1) c] .
  have "onInvoicePaymentSucceeded clk ip st =
      Some \<lparr> users = save u' (users st),
             invoices = handleSuccessfulPayment clk (invoiceData ip) u' (invoices st) \<rparr>"
    using assms by (simp add: onInvoicePaymentSucceeded_def Let_def u'_def)
  then show ?thesis using f by (auto simp: u'_def)
qed

lemma ex_invoice_delivery:
  "constructEvent ex_client (body (ex_request ''invoice.payment_succeeded'' ''good''))
     (signature (ex_request ''invoice.payment_succeeded'' ''good'')) (Some ''whsec'')
     = Some (InvoicePaymentSucceeded ex_invoicePaid)"
  "findOneByCustomer (users ex_store) (inv_customer ex_invoicePaid) = Some ex_user1"
  "\<not> findOne_throws ex_clock1" "\<not> save_throws ex_clock1"
  "\<not> findOne_throws ex_clock2" "\<not> save_throws ex_clock2"
  by (simp_all add: findOneByCustomer_def ex_defs)

lemma ex_ids:
  "newInvoiceId ex_clock1 = ''INV-1700000000003-K3J9X0QAB''"
  "newInvoiceId ex_clock2 = ''INV-1700000060002-7ZP2M4LQW''"
  by (simp_all add: newInvoiceId_def ex_clock1_def ex_clock2_def show_nat.simps digit_char_def)

lemma ex_invoice_provisos:
  "inv_subscription ex_invoicePaid \<noteq> None \<and> amount_paid ex_invoicePaid \<noteq> 0
   \<and> \<not> create_throws ex_clock1 \<and> \<not> create_throws ex_clock2
   \<and> newInvoiceId ex_clock1 \<notin> invoiceId ` set (invoices ex_store)
   \<and> newInvoiceId ex_clock2 \<notin> invoiceId ` set (invoices ex_store)
   \<and> newInvoiceId ex_clock2 \<noteq> newInvoiceId ex_clock1"
  by (simp add: ex_ids) (simp add: ex_defs)

lemmas webhook_defs = handleWebhook_def onInvoicePaymentSucceeded_def onChargeSucceeded_def
  onPaymentIntentSucceeded_def markPaid_def handleSuccessfulPayment_def generateInvoice_def
  invoiceData_def paymentData_def findOneByCustomer_def save_def spread_def or_str_def
  truthy_str_def retrieve_def periodEndOf_def or_month_def validityDays_def

text \<open>
  C1, as amended. For a verified \<open>invoice.payment_succeeded\<close> event whose customer has a user
  row, when the calls to the user table succeed, both of two deliveries are acknowledged,
  and the subscription's \<open>currentPeriodEnd\<close> after the second delivery equals its value
  after the first, the period end of the invoice. Every delivery whose \<open>Invoice.create\<close>
  succeeds (the invoice names a subscription, its amount paid is not 0, the generated
  invoice id is new, the database accepts the insert) creates one Invoice row, so that
  two such deliveries of the same event create two.
\<close>

theorem invoice_paid_replay:
  assumes "constructEvent client (body req) (signature req) secret
             = Some (InvoicePaymentSucceeded ip)"
    and "findOneByCustomer (users st) (inv_customer ip) = Some u"
    and "\<not> findOne_throws clk1" "\<not> save_throws clk1"
    and "\<not> findOne_throws clk2" "\<not> save_throws clk2"
  shows "fst (handleWebhook (Some client) secret clk1 req st) = Webhook_Received
       \<and> fst (handleWebhook (Some client) secret clk2 req
               (snd (handleWebhook (Some client) secret clk1 req st))) = Webhook_Received
       \<and> map_option currentPeriodEnd
           (localSubscriptionOf (snd (handleWebhook (Some client) secret clk1 req st))
              (inv_customer ip))
           = Some (Some (period_end ip * 1000))
       \<and> map_option currentPeriodEnd
           (localSubscriptionOf (snd (handleWebhook (Some client) secret clk2 req
               (snd (handleWebhook (Some client) secret clk1 req st)))) (inv_customer ip))
           = map_option currentPeriodEnd
           (localSubscriptionOf (snd (handleWebhook (Some client) secret clk1 req st))
              (inv_customer ip))
       \<and> (inv_subscription ip \<noteq> None \<and> amount_paid ip \<noteq> 0
            \<and> \<not> create_throws clk1 \<and> \<not> create_throws clk2
            \<and> newInvoiceId clk1 \<notin> invoiceId ` set (invoices st)
            \<and> newInvoiceId clk2 \<notin> invoiceId ` set (invoices st)
            \<and> newInvoiceId clk2 \<noteq> newInvoiceId clk1 \<longrightarrow>
              length (invoices (snd (handleWebhook (Some client) secret clk1 req st)))
                = length (invoices st) + 1
            \<and> length (invoices (snd (handleWebhook (Some client) secret clk2 req
                 (snd (handleWebhook (Some client) secret clk1 req st)))))
                = length (invoices st) + 2)"
proof -
  obtain u1 l1 where s1:
    "onInvoicePaymentSucceeded clk1 ip st =
       Some \<lparr> users = save u1 (users st),
              invoices = handleSuccessfulPayment clk1 (invoiceData ip) u1 (invoices st) \<rparr>"
    "findOneByCustomer (save u1 (users st)) (inv_customer ip) = Some u1"
    "subscription u1 = Some l1" "currentPeriodEnd l1 = Some (period_end ip * 1000)"
    using onInvoicePaymentSucceeded_step [OF assms(2,3,4)] by blast
  define st1 where "st1 = \<lparr> users = save u1 (users st),
      invoices = handleSuccessfulPayment clk1 (invoiceData ip) u1 (invoices st) \<rparr>"
  have usr1: "findOneByCustomer (users st1) (inv_customer ip) = Some u1"
    using s1(2) by (simp add: st1_def)
  obtain u2 l2 where s2:
    "onInvoicePaymentSucceeded clk2 ip st1 =
       Some \<lparr> users = save u2 (users st1),
              invoices = handleSuccessfulPayment clk2 (invoiceData ip) u2 (invoices st1) \<rparr>"
    "findOneByCustomer (save u2 (users st1)) (inv_customer ip) = Some u2"
    "subscription u2 = Some l2" "currentPeriodEnd l2 = Some (period_end ip * 1000)"
    using onInvoicePaymentSucceeded_step [OF usr1 assms(5,6)] by blast
  define st2 where "st2 = \<lparr> users = save u2 (users st1),
      invoices = handleSuccessfulPayment clk2 (invoiceData ip) u2 (invoices st1) \<rparr>"
  have h1: "handleWebhook (Some client) secret clk1 req st = (Webhook_Received, st1)"
    using assms(1) s1(1) by (simp add: handleWebhook_def st1_def)
  have h2: "handleWebhook (Some client) secret clk2 req st1 = (Webhook_Received, st2)"
    using assms(1) s2(1) by (simp add: handleWebhook_def st2_def)
  have p1: "map_option currentPeriodEnd (localSubscriptionOf st1 (inv_customer ip))
      = Some (Some (period_end ip * 1000))"
    using usr1 s1(3,4) by (simp add: localSubscriptionOf_def)
  have p2: "map_option currentPeriodEnd (localSubscriptionOf st2 (inv_customer ip))
      = Some (Some (period_end ip * 1000))"
    using s2(2,3,4) by (simp add: localSubscriptionOf_def st2_def)
  have inv: "length (invoices st1) = length (invoices st) + 1
           \<and> length (invoices st2) = length (invoices st) + 2"
    if pr: "inv_subscription ip \<noteq> None \<and> amount_paid ip \<noteq> 0
            \<and> \<not> create_throws clk1 \<and> \<not> create_throws clk2
            \<and> newInvoiceId clk1 \<notin> invoiceId ` set (invoices st)
            \<and> newInvoiceId clk2 \<notin> invoiceId ` set (invoices st)
            \<and> newInvoiceId clk2 \<noteq> newInvoiceId clk1"
  proof -
    from pr obtain s where s: "inv_subscription ip = Some s" by auto
    from pr have amt: "amount_paid ip \<noteq> 0" and c1: "\<not> create_throws clk1"
      and c2: "\<not> create_throws clk2"
      and f1: "newInvoiceId clk1 \<notin> invoiceId ` set (invoices st)"
      and f2: "newInvoiceId clk2 \<notin> invoiceId ` set (invoices st)"
      and neq: "newInvoiceId clk2 \<noteq> newInvoiceId clk1"
      by simp_all
    obtain row1 where r1: "invoices st1 = invoices st @ [row1]" "invoiceId row1 = newInvoiceId clk1"
      using handleSuccessfulPayment_created [OF invoiceData_ok [OF s amt] f1 c1, of u1]
      by (auto simp: st1_def)
    have fresh: "newInvoiceId clk2 \<notin> invoiceId ` set (invoices st1)"
      using f2 neq r1 by simp
    obtain row2 where r2: "invoices st2 = invoices st1 @ [row2]"
      using handleSuccessfulPayment_created [OF invoiceData_ok [OF s amt] fresh c2, of u2]
      by (auto simp: st2_def)
    show ?thesis using r1(1) r2 by simp
  qed
  have p21: "map_option currentPeriodEnd (localSubscriptionOf st2 (inv_customer ip))
      = map_option currentPeriodEnd (localSubscriptionOf st1 (inv_customer ip))"
    by (simp only: p1 p2)
  show ?thesis
    unfolding h1 h2 fst_conv snd_conv using p1 p21 inv by blast
qed

theorem invoice_paid_replay_witness:
  "length (invoices (snd (handleWebhook (Some ex_client) (Some ''whsec'') ex_clock2
       (ex_request ''invoice.payment_succeeded'' ''good'')
       (snd (handleWebhook (Some ex_client) (Some ''whsec'') ex_clock1
          (ex_request ''invoice.payment_succeeded'' ''good'') ex_store))))) = 2
 \<and> map_option currentPeriodEnd
      (localSubscriptionOf (snd (handleWebhook (Some ex_client) (Some ''whsec'') ex_clock2
       (ex_request ''invoice.payment_succeeded'' ''good'')
       (snd (handleWebhook (Some ex_client) (Some ''whsec'') ex_clock1
          (ex_request ''invoice.payment_succeeded'' ''good'') ex_store)))) ''cus_1'')
    = Some (Some 1800000000000)"
  using invoice_paid_replay [OF ex_invoice_delivery] ex_invoice_provisos
  by (simp add: ex_store_def ex_invoicePaid_def)

text \<open>
  Two deliveries of the paid invoice of customer 1, one minute apart, leave two Invoice
  rows in a store that held none.
\<close>

theorem invoice_paid_replay_counterexample:
  "length (invoices (snd (handleWebhook (Some ex_client) (Some ''whsec'') ex_clock2
       (ex_request ''invoice.payment_succeeded'' ''good'')
       (snd (handleWebhook (Some ex_client) (Some ''whsec'') ex_clock1
          (ex_request ''invoice.payment_succeeded'' ''good'') ex_store))))) = 2"
  by (simp add: webhook_defs ex_defs ex_ids [unfolded ex_clock1_def ex_clock2_def] Let_def)

lemma markPaid_step:
  assumes "findOneByCustomer (users st) c = Some u" "\<not> save_throws clk"
  shows "\<exists>u' ls.
      markPaid clk ns sid sub pay u st =
        Some \<lparr> users = save u' (users st),
               invoices = handleSuccessfulPayment clk (paymentData sid pay) u' (invoices st) \<rparr>
    \<and> findOneByCustomer (save u' (users st)) c = Some u'
    \<and> user_id u' = user_id u
    \<and> subscription u' = Some ls \<and> status ls = Some ns"
proof -
  define u' where "u' = u\<lparr> subscription := Some ((spread (subscription u))
                 \<lparr> status := Some ns,
                   currentPeriodEnd := Some (periodEndOf (now clk) sub),
                   paymentDate := Some (now clk),
                   interval := Some (or_month (plan_interval sub)) \<rparr>) \<rparr>"
  have c: "stripeCustomerId u' = Some c" "user_id u' = user_id u"
    using findOneByCustomer_customer [OF assms(1)] by (simp_all add: u'_def)
  have f: "findOneByCustomer (save u' (users st)) c = Some u'"
    using findOneByCustomer_save [OF assms(1) c] .
  have "markPaid clk ns sid sub pay u st =
      Some \<lparr> users = save u' (users st),
             invoices = handleSuccessfulPayment clk (paymentData sid pay) u' (invoices st) \<rparr>"
    using assms(2) by (simp add: markPaid_def Let_def u'_def)
  then show ?thesis using f c(2) by (auto simp: u'_def)
qed

lemma ex_charge_delivery:
  "constructEvent ex_client (body (ex_request ''charge.succeeded'' ''good''))
     (signature (ex_request ''charge.succeeded'' ''good'')) (Some ''whsec'')
     = Some (ChargeSucceeded ex_charge)"
  "metadata_subscription_id ex_charge = Some ''sub_1''"
  "''sub_1'' \<noteq> []"
  "retrieve ex_client ''sub_1'' = Some ex_sub1"
  "stripe_status ex_sub1 = ''incomplete''"
  "findOneByCustomer (users ex_store) (customer ex_sub1) = Some ex_user1"
  "\<not> findOne_throws ex_clock1" "\<not> save_throws ex_clock1"
  by (simp_all add: findOneByCustomer_def retrieve_def ex_defs)

lemma charge_succeeded_no_user:
  assumes "constructEvent client (body req) (signature req) secret = Some (ChargeSucceeded charge)"
    and "metadata_subscription_id charge = Some sid" "sid \<noteq> []"
    and "retrieve client sid = Some sub"
    and "findOneByCustomer (users st) (customer sub) = None"
    and "\<not> findOne_throws clk"
  shows "handleWebhook (Some client) secret clk req st = (Webhook_Received, st)"
  using assms by (simp add: handleWebhook_def onChargeSucceeded_def truthy_str_def)

text \<open>
  C6, as amended. For a verified \<open>charge.succeeded\<close> event linked to a subscription that
  the provider reports as \<open>incomplete\<close>, when the subscription's customer has a user row
  and the calls to the user table succeed, the handler acknowledges the event and stores
  the local status \<open>active\<close>. It appends at most one Invoice row, and exactly one, for that
  subscription and that user, when \<open>Invoice.create\<close> succeeds: the charge amount is not 0,
  the generated invoice id is new and the database accepts the insert.
\<close>

theorem charge_succeeded_incomplete:
  assumes "constructEvent client (body req) (signature req) secret = Some (ChargeSucceeded charge)"
    and "metadata_subscription_id charge = Some sid" "sid \<noteq> []"
    and "retrieve client sid = Some sub" "stripe_status sub = ''incomplete''"
    and "findOneByCustomer (users st) (customer sub) = Some u"
    and "\<not> findOne_throws clk" "\<not> save_throws clk"
  shows "fst (handleWebhook (Some client) secret clk req st) = Webhook_Received
       \<and> map_option status
           (localSubscriptionOf (snd (handleWebhook (Some client) secret clk req st)) (customer sub))
           = Some (Some ''active'')
       \<and> length (invoices (snd (handleWebhook (Some client) secret clk req st)))
           \<le> length (invoices st) + 1
       \<and> (pay_amount charge \<noteq> 0 \<and> \<not> create_throws clk
            \<and> newInvoiceId clk \<notin> invoiceId ` set (invoices st) \<longrightarrow>
            (\<exists>row. invoices (snd (handleWebhook (Some client) secret clk req st))
                      = invoices st @ [row]
                  \<and> subscriptionId row = sid \<and> userId row = user_id u))"
proof -
  obtain u' ls where m:
    "markPaid clk ''active'' sid sub charge u st =
       Some \<lparr> users = save u' (users st),
              invoices = handleSuccessfulPayment clk (paymentData sid charge) u' (invoices st) \<rparr>"
    "findOneByCustomer (save u' (users st)) (customer sub) = Some u'"
    "user_id u' = user_id u"
    "subscription u' = Some ls" "status ls = Some ''active''"
    using markPaid_step [OF assms(6,8)] by blast
  define st' where "st' = \<lparr> users = save u' (users st),
      invoices = handleSuccessfulPayment clk (paymentData sid charge) u' (invoices st) \<rparr>"
  have "onChargeSucceeded client clk charge st = Some st'"
    using assms(2-7) m(1) by (simp add: onChargeSucceeded_def truthy_str_def st'_def)
  then have h: "handleWebhook (Some client) secret clk req st = (Webhook_Received, st')"
    using assms(1) by (simp add: handleWebhook_def)
  have a: "map_option status (localSubscriptionOf st' (customer sub)) = Some (Some ''active'')"
    using m(2,4,5) by (simp add: localSubscriptionOf_def st'_def)
  have b: "length (invoices st') \<le> length (invoices st) + 1"
    using handleSuccessfulPayment_at_most_one [of clk "paymentData sid charge" u' "invoices st"]
    by (auto simp: st'_def)
  have c: "\<exists>row. invoices st' = invoices st @ [row]
                  \<and> subscriptionId row = sid \<and> userId row = user_id u"
    if pr: "pay_amount charge \<noteq> 0 \<and> \<not> create_throws clk
            \<and> newInvoiceId clk \<notin> invoiceId ` set (invoices st)"
  proof -
    from pr have amt: "pay_amount charge \<noteq> 0" and ct: "\<not> create_throws clk"
      and fr: "newInvoiceId clk \<notin> invoiceId ` set (invoices st)"
      by simp_all
    show ?thesis
      using handleSuccessfulPayment_created [OF paymentData_ok [OF amt] fr ct, of sid u'] m(3)
      by (auto simp: st'_def)
  qed
  show ?thesis
    unfolding h fst_conv snd_conv using a b c by blast
qed

theorem charge_succeeded_incomplete_witness:
  "map_option status (localSubscriptionOf ex_store ''cus_1'') = Some (Some ''incomplete'')
 \<and> fst (handleWebhook (Some ex_client) (Some ''whsec'') ex_clock1
       (ex_request ''charge.succeeded'' ''good'') ex_store) = Webhook_Received
 \<and> map_option status
      (localSubscriptionOf (snd (handleWebhook (Some ex_client) (Some ''whsec'') ex_clock1
         (ex_request ''charge.succeeded'' ''good'') ex_store)) ''cus_1'') = Some (Some ''active'')
 \<and> length (invoices (snd (handleWebhook (Some ex_client) (Some ''whsec'') ex_clock1
         (ex_request ''charge.succeeded'' ''good'') ex_store))) = 1"
proof -
  have b: "map_option status (localSubscriptionOf ex_store ''cus_1'') = Some (Some ''incomplete'')"
    by (simp add: localSubscriptionOf_def findOneByCustomer_def ex_defs)
  have c: "customer ex_sub1 = ''cus_1''" "invoices ex_store = []"
    by (simp_all add: ex_defs)
  have p: "pay_amount ex_charge \<noteq> 0 \<and> \<not> create_throws ex_clock1
            \<and> newInvoiceId ex_clock1 \<notin> invoiceId ` set (invoices ex_store)"
    by (simp add: ex_defs)
  show ?thesis
    using charge_succeeded_incomplete [OF ex_charge_delivery] b p
    by (auto simp: c)
qed

text \<open>
  A verified \<open>charge.succeeded\<close> event linked to subscription 6, which the provider
  reports as \<open>incomplete\<close> and whose customer has no user row: the event is acknowledged,
  no local status is written and no Invoice row is created.
\<close>

theorem charge_succeeded_incomplete_counterexample:
  "constructEvent ex_client (body (ex_request ''charge.succeeded orphan'' ''good''))
     (signature (ex_request ''charge.succeeded orphan'' ''good'')) (Some ''whsec'')
     = Some (ChargeSucceeded ex_chargeOrphan)
 \<and> metadata_subscription_id ex_chargeOrphan = Some ''sub_6''
 \<and> map_option stripe_status (retrieve ex_client ''sub_6'') = Some ''incomplete''
 \<and> handleWebhook (Some ex_client) (Some ''whsec'') ex_clock1
       (ex_request ''charge.succeeded orphan'' ''good'') ex_store = (Webhook_Received, ex_store)
 \<and> localSubscriptionOf ex_store ''cus_6'' = None
 \<and> invoices ex_store = []"
  by (simp add: webhook_defs localSubscriptionOf_def ex_defs Let_def)

text \<open>
  C8. When the provider client is configured and \<open>constructEvent\<close> rejects the signature of
  a request, the endpoint answers 400 and the store (users and invoices) is unchanged.
\<close>

theorem webhook_bad_signature:
  assumes "constructEvent client (body req) (signature req) secret = None"
  shows "fst (handleWebhook (Some client) secret clk req st) = Webhook_BadSignature
       \<and> http_status (fst (handleWebhook (Some client) secret clk req st)) = Some 400
       \<and> snd (handleWebhook (Some client) secret clk req st) = st"
  using assms by (simp add: handleWebhook_def)

theorem webhook_bad_signature_witness:
  "constructEvent ex_client (body (ex_request ''charge.succeeded'' ''forged''))
     (signature (ex_request ''charge.succeeded'' ''forged'')) (Some ''whsec'') = None
 \<and> handleWebhook (Some ex_client) (Some ''whsec'') ex_clock1
       (ex_request ''charge.succeeded'' ''forged'') ex_store = (Webhook_BadSignature, ex_store)
 \<and> http_status Webhook_BadSignature = Some 400"
proof -
  have h: "constructEvent ex_client (body (ex_request ''charge.succeeded'' ''forged''))
     (signature (ex_request ''charge.succeeded'' ''forged'')) (Some ''whsec'') = None"
    by (simp add: ex_client_def ex_constructEvent_def ex_request_def)
  show ?thesis
    using webhook_bad_signature [OF h, of ex_clock1 ex_store] h
    by (simp add: prod_eq_iff)
qed

lemma webhook_unhandled:
  assumes "constructEvent client (body req) (signature req) secret = Some (Unhandled ty)"
  shows "handleWebhook (Some client) secret clk req st = (Webhook_Received, st)"
  using assms by (simp add: handleWebhook_def)

text \<open>
  C9. A verified \<open>charge.succeeded\<close> event whose \<open>metadata.subscription_id\<close> names a
  subscription the provider cannot retrieve: the handler rejects at
  \<open>await stripe.subscriptions.retrieve\<close>, before it writes a reply, so the request is not
  answered 200; the store is as it was.
\<close>

theorem webhook_lookup_rejects:
  "constructEvent ex_client (body (ex_request ''charge.succeeded unknown'' ''good''))
     (signature (ex_request ''charge.succeeded unknown'' ''good'')) (Some ''whsec'')
     = Some (ChargeSucceeded ex_chargeUnknown)
 \<and> handleWebhook (Some ex_client) (Some ''whsec'') ex_clock1
       (ex_request ''charge.succeeded unknown'' ''good'') ex_store = (Webhook_Threw, ex_store)
 \<and> http_status Webhook_Threw \<noteq> Some 200"
  by (simp add: webhook_defs ex_defs Let_def)

section \<open>Force-activate\<close>

lemma forceActivate_users_unchanged:
  "fst (snd (forceActivateSubscription stripe us t req_user)) = us"
  by (simp add: forceActivateSubscription_def split: option.splits)

text \<open>
  C7. A force-activate call for user 3, whose stored status is \<open>past_due\<close> with
  \<open>cancelAtPeriodEnd\<close> set: the reply reports \<open>active\<close>, and the stored subscription is as
  it was, not the edited object \<open>forceActivated\<close>; a second call in a row finds and
  leaves the same stored subscription.
\<close>

theorem force_activate_not_persisted:
  "fst (forceActivateSubscription (Some ex_client) ex_users 1700000000000 (Some 3)) =
     Force_Ok \<lparr> f_stripeStatus = ''active'', f_databaseStatus = ''active'', f_id = ''sub_3'',
       f_status = ''active'', f_interval = ''month'', f_cancelAtPeriodEnd = False,
       f_currentPeriodEnd = None, f_isActive = True \<rparr>
 \<and> subscriptionOfUser
     (fst (snd (forceActivateSubscription (Some ex_client) ex_users 1700000000000 (Some 3)))) 3
   = Some \<lparr> sub_id = Some ''sub_3'', status = Some ''past_due'',
        currentPeriodEnd = None, paymentDate = None, interval = None,
        cancelAtPeriodEnd = Some True \<rparr>
 \<and> subscriptionOfUser
     (fst (snd (forceActivateSubscription
        (snd (snd (forceActivateSubscription (Some ex_client) ex_users 1700000000000 (Some 3))))
        (fst (snd (forceActivateSubscription (Some ex_client) ex_users 1700000000000 (Some 3))))
        1700000060000 (Some 3)))) 3
   = Some \<lparr> sub_id = Some ''sub_3'', status = Some ''past_due'',
        currentPeriodEnd = None, paymentDate = None, interval = None,
        cancelAtPeriodEnd = Some True \<rparr>
 \<and> Some (forceActivated 1700000000000 ex_sub3
       \<lparr> sub_id = Some ''sub_3'', status = Some ''past_due'',
         currentPeriodEnd = None, paymentDate = None, interval = None,
         cancelAtPeriodEnd = Some True \<rparr>)
   = Some \<lparr> sub_id = Some ''sub_3'', status = Some ''active'',
        currentPeriodEnd = Some 1702592000000, paymentDate = Some 1700000000000,
        interval = Some ''month'', cancelAtPeriodEnd = Some False \<rparr>"
  by (simp add: forceActivate_users_unchanged)
     (simp add: forceActivateSubscription_def forceActivated_def subscriptionOfUser_def
       findByPk_def retrieve_def periodEndOf_def or_month_def validityDays_def ex_defs)

end
